theory Spec2Isabelle
  imports Complex_Main "HOL-Library.AList"
begin

section \<open>Period tracker: prediction service and prediction cache\<close>

text \<open>
  A shallow embedding of the class \<^verbatim>\<open>PredictionService\<close>
  (\<^verbatim>\<open>services/predictionService\<close>), of \<^verbatim>\<open>cacheHelpers\<close> (\<^verbatim>\<open>config/redis.ts\<close>), of the
  handler of \<^verbatim>\<open>GET /next-period\<close> (\<^verbatim>\<open>routes/predictions.ts\<close>) and of the period-create
  handler of the periods route. In the source tree the text of the service and of the
  periods route follows the authentication routes in \<^verbatim>\<open>routes/auth.ts\<close>.

  Conventions of the embedding.
  \<^item> A JavaScript \<^verbatim>\<open>number\<close> is a \<^typ>\<open>real\<close>: arithmetic is exact, the rounding of
    IEEE doubles is not modelled. \<^verbatim>\<open>Math.round x\<close> is \<open>\<lfloor>x + 1/2\<rfloor>\<close>, which is
    \<^const>\<open>round\<close>.
  \<^item> A \<^verbatim>\<open>Date\<close> built from a \<^verbatim>\<open>DATEONLY\<close> column is midnight UTC of a calendar day and
    is modelled by its day number (days since 1970-01-01); the server runs in UTC, so
    local time and UTC agree.
  \<^item> A rejected promise or a thrown exception is the \<open>Inl\<close> of a sum type.
\<close>

subsection \<open>Data model\<close>

type_synonym date = int

datatype FlowIntensity = light | moderate | heavy

datatype Regularity = very_regular | regular | somewhat_irregular | irregular

text \<open>A row of table \<^verbatim>\<open>periods\<close> (models/Period.ts), without id, notes and timestamps.\<close>

record Period =
  user_id :: string
  start_date :: date
  end_date :: "date option"
  flow_intensity :: "FlowIntensity option"

record CycleStats =
  avgCycleLength :: real
  avgPeriodLength :: real
  standardDeviation :: real
  regularity :: Regularity
  cyclesTracked :: nat

record PredictionResult =
  predictedStartDate :: date
  predictedEndDate :: date
  ovulationStart :: date
  ovulationEnd :: date
  confidenceScore :: real
  predictedFlowIntensity :: "FlowIntensity option"

text \<open>\<^verbatim>\<open>PredictionResult & { cycleStats: CycleStats }\<close>\<close>

record PredictionWithStats = PredictionResult +
  cycleStats :: CycleStats

text \<open>\<^verbatim>\<open>PredictionResult & { cycleNumber: number }\<close>\<close>

record NumberedPrediction = PredictionResult +
  cycleNumber :: nat

record MultiplePredictions =
  predictions :: "NumberedPrediction list"
  multiCycleStats :: CycleStats

subsection \<open>Dates\<close>

text \<open>\<^verbatim>\<open>Date.prototype.getTime\<close>: milliseconds since the epoch.\<close>

definition getTime :: "date \<Rightarrow> real" where
  "getTime d = of_int d * 86400000"

text \<open>
  \<^verbatim>\<open>Date.prototype.getDate\<close>: the day of the month (1 to 31) in the proleptic Gregorian
  calendar, computed from the day number by the usual era / day-of-era decomposition
  (years start in March, so that the leap day is the last day of a year).
\<close>

definition getDate :: "date \<Rightarrow> int" where
  "getDate d =
     (let z = d + 719468;
          doe = z mod 146097;
          yoe = (doe - doe div 1460 + doe div 36524 - doe div 146096) div 365;
          doy = doe - (365 * yoe + yoe div 4 - yoe div 100);
          mp = (5 * doy + 2) div 153
      in doy - (153 * mp + 2) div 5 + 1)"

text \<open>
  ECMAScript \<^verbatim>\<open>ToIntegerOrInfinity\<close> on a finite number: truncation towards zero.
  \<^verbatim>\<open>setDate\<close> applies it to its argument (through \<^verbatim>\<open>MakeDay\<close>).
\<close>

definition ToIntegerOrInfinity :: "real \<Rightarrow> int" where
  "ToIntegerOrInfinity x = (if x < 0 then \<lceil>x\<rceil> else \<lfloor>x\<rfloor>)"

text \<open>
  \<^verbatim>\<open>private daysBetween(date1, date2)\<close>:
  \<^verbatim>\<open>Math.round(Math.abs((date2.getTime() - date1.getTime()) / oneDay))\<close>.
\<close>

definition daysBetween :: "date \<Rightarrow> date \<Rightarrow> real" where
  "daysBetween date1 date2 =
     (let oneDay = 24 * 60 * 60 * 1000
      in of_int (round (\<bar>(getTime date2 - getTime date1) / oneDay\<bar>)))"

text \<open>
  \<^verbatim>\<open>private addDays(date, days)\<close>:
  \<^verbatim>\<open>result.setDate(result.getDate() + days)\<close>. \<^verbatim>\<open>setDate\<close> moves to day
  \<open>ToIntegerOrInfinity (getDate + days)\<close> of the current month, where day 1 is the first
  of the month and days outside the month run over into the neighbouring months.
\<close>

definition addDays :: "date \<Rightarrow> real \<Rightarrow> date" where
  "addDays d days =
     (let firstOfMonth = d - getDate d + 1
      in firstOfMonth + ToIntegerOrInfinity (of_int (getDate d) + days) - 1)"

subsection \<open>Array helpers\<close>

text \<open>\<^verbatim>\<open>Array.prototype.slice(start, end)\<close> for non-negative indices.\<close>

definition slice :: "nat \<Rightarrow> nat \<Rightarrow> 'a list \<Rightarrow> 'a list" where
  "slice s e xs = drop s (take e xs)"

subsection \<open>PredictionService: statistics\<close>

text \<open>\<^verbatim>\<open>private average(numbers)\<close>: 0 on the empty array.\<close>

definition average :: "real list \<Rightarrow> real" where
  "average numbers =
     (if length numbers = 0 then 0 else sum_list numbers / of_nat (length numbers))"

text \<open>\<^verbatim>\<open>private standardDeviation(numbers)\<close>\<close>

definition standardDeviation_of :: "real list \<Rightarrow> real" where
  "standardDeviation_of numbers =
     (if length numbers = 0 then 0
      else let avg = average numbers;
               squareDiffs = map (\<lambda>num. (num - avg) ^ 2) numbers
           in sqrt (average squareDiffs))"

text \<open>
  \<^verbatim>\<open>private calculateCycleLengths(periods)\<close>: the loop over \<open>i = 0 .. length - 2\<close>
  compares each record with the next older one and keeps a length in \<open>[21, 45]\<close>.
\<close>

fun calculateCycleLengths :: "Period list \<Rightarrow> real list" where
  "calculateCycleLengths (p # q # ps) =
     (let currentStart = start_date p;
          previousStart = start_date q;
          cycleLength = daysBetween previousStart currentStart
      in (if cycleLength \<ge> 21 \<and> cycleLength \<le> 45 then [cycleLength] else [])
           @ calculateCycleLengths (q # ps))"
| "calculateCycleLengths ps = []"

text \<open>
  The body of \<^verbatim>\<open>calculateWeightedCycleLength\<close> after its first line, as a function of
  the cycle lengths.
\<close>

definition weightedCycleLength :: "real list \<Rightarrow> real" where
  "weightedCycleLength cycleLengths =
     (let recent3 = slice 0 (min 3 (length cycleLengths)) cycleLengths;
          middle3 = slice 3 (min 6 (length cycleLengths)) cycleLengths;
          older = drop 6 cycleLengths;
          recentAvg = (if length recent3 > 0 then average recent3 else 0);
          middleAvg = (if length middle3 > 0 then average middle3 else recentAvg);
          olderAvg = (if length older > 0 then average older else middleAvg)
      in if length cycleLengths \<le> 3 then recentAvg
         else if length cycleLengths \<le> 6 then recentAvg * 0.7 + middleAvg * 0.3
         else recentAvg * 0.5 + middleAvg * 0.3 + olderAvg * 0.2)"

text \<open>\<^verbatim>\<open>private calculateWeightedCycleLength(periods)\<close>\<close>

definition calculateWeightedCycleLength :: "Period list \<Rightarrow> real" where
  "calculateWeightedCycleLength periods = weightedCycleLength (calculateCycleLengths periods)"

text \<open>
  The period lengths of \<^verbatim>\<open>calculateCycleStats\<close> and \<^verbatim>\<open>calculateAveragePeriodLength\<close>:
  \<^verbatim>\<open>periods.filter(p => p.end_date).map(p => daysBetween(start, end) + 1)\<close>.
\<close>

definition periodLengths_of :: "Period list \<Rightarrow> real list" where
  "periodLengths_of periods =
     List.map_filter
       (\<lambda>p. case end_date p of None \<Rightarrow> None
            | Some e \<Rightarrow> Some (daysBetween (start_date p) e + 1))
       periods"

text \<open>The \<^verbatim>\<open>if\<close> chain of \<^verbatim>\<open>calculateCycleStats\<close> that sets \<^verbatim>\<open>regularity\<close>.\<close>

definition classifyRegularity :: "real \<Rightarrow> Regularity" where
  "classifyRegularity sd =
     (if sd < 2 then very_regular
      else if sd < 4 then regular
      else if sd < 7 then somewhat_irregular
      else irregular)"

text \<open>\<^verbatim>\<open>private calculateCycleStats(periods)\<close>\<close>

definition calculateCycleStats :: "Period list \<Rightarrow> CycleStats" where
  "calculateCycleStats periods =
     (let cycleLengths = calculateCycleLengths periods;
          periodLengths = periodLengths_of periods;
          sd = standardDeviation_of cycleLengths
      in \<lparr> avgCycleLength = average cycleLengths,
           avgPeriodLength = average periodLengths,
           standardDeviation = sd,
           regularity = classifyRegularity sd,
           cyclesTracked = length cycleLengths \<rparr>)"

text \<open>\<^verbatim>\<open>private calculateAveragePeriodLength(periods)\<close>\<close>

definition calculateAveragePeriodLength :: "Period list \<Rightarrow> real" where
  "calculateAveragePeriodLength periods =
     (let periodLengths = filter (\<lambda>l. l \<ge> 2 \<and> l \<le> 10) (periodLengths_of periods)
      in if length periodLengths > 0 then average periodLengths else 5)"

text \<open>
  \<^verbatim>\<open>private calculateConfidence(stdDev, dataPoints, avgCycleLength)\<close>, in three steps:
  the \<^verbatim>\<open>if\<close> chain that sets \<^verbatim>\<open>baseConfidence\<close>, the sum \<^verbatim>\<open>finalConfidence\<close>, and the
  clamped value that is returned.
\<close>

definition baseConfidence :: "real \<Rightarrow> real" where
  "baseConfidence stdDev =
     (if stdDev < 2 then 0.92
      else if stdDev < 4 then 0.82
      else if stdDev < 7 then 0.67
      else 0.50)"

definition unclampedConfidence :: "real \<Rightarrow> nat \<Rightarrow> real \<Rightarrow> real" where
  "unclampedConfidence stdDev dataPoints avgLen =
     (let dataBoost = min (of_nat dataPoints / 12) 1.0 * 0.08;
          cycleAdjustment = (if avgLen \<ge> 26 \<and> avgLen \<le> 32 then 0 else - 0.05)
      in baseConfidence stdDev + dataBoost + cycleAdjustment)"

definition calculateConfidence :: "real \<Rightarrow> nat \<Rightarrow> real \<Rightarrow> real" where
  "calculateConfidence stdDev dataPoints avgLen =
     (let finalConfidence = unclampedConfidence stdDev dataPoints avgLen
      in max 0.40 (min 0.95 finalConfidence))"

text \<open>
  \<^verbatim>\<open>private predictFlowIntensity(periods)\<close>: the tally object has the keys
  \<^verbatim>\<open>light, moderate, heavy\<close> in this order, and \<^verbatim>\<open>find\<close> returns the first key whose
  count is the maximum.
\<close>

definition predictFlowIntensity :: "Period list \<Rightarrow> FlowIntensity option" where
  "predictFlowIntensity periods =
     (let periodsWithFlow = take 6 (List.map_filter flow_intensity periods)
      in if length periodsWithFlow = 0 then None
         else let recentPeriods = take 3 periodsWithFlow;
                  intensityCounts = (\<lambda>f. of_nat (count_list periodsWithFlow f)
                                         + 0.5 * of_nat (count_list recentPeriods f) :: real);
                  maxCount = max (intensityCounts light)
                               (max (intensityCounts moderate) (intensityCounts heavy))
              in case find (\<lambda>f. intensityCounts f = maxCount) [light, moderate, heavy] of
                   Some mostCommon \<Rightarrow> Some mostCommon
                 | None \<Rightarrow> Some moderate)"

subsection \<open>PredictionService: the database\<close>

text \<open>
  What can be thrown: a failed database query, a read of a property of \<^verbatim>\<open>undefined\<close>, a
  failed Redis command, and a failure of \<^verbatim>\<open>JSON.stringify\<close> or \<^verbatim>\<open>JSON.parse\<close>.
\<close>

datatype error = UpstreamUnavailable | TypeError | RedisError | JsonError

text \<open>A row of table \<^verbatim>\<open>user_settings\<close> (models/UserSettings.ts), keyed by user id.\<close>

record UserSettings =
  avg_cycle_length :: int
  avg_period_length :: int
  last_calculated_at :: "date option"

text \<open>
  The relational store behind the Sequelize models. A query on a store that is not
  \<open>available\<close> rejects.
\<close>

record Database =
  available :: bool
  periods_table :: "Period list"
  user_settings_table :: "string \<rightharpoonup> UserSettings"
  predictions_table :: "(string \<times> PredictionResult) list"

text \<open>
  The query of \<^verbatim>\<open>predictNextPeriod\<close>:
  \<^verbatim>\<open>Period.findAll({ where: { user_id, end_date: { [Op.ne]: null } },
     order: [['start_date', 'DESC']], limit: 12, raw: true })\<close>.
\<close>

definition Period_findAll :: "Database \<Rightarrow> string \<Rightarrow> error + Period list" where
  "Period_findAll db userId =
     (if \<not> available db then Inl UpstreamUnavailable
      else Inr (take 12 (sort_key (\<lambda>p. - start_date p)
                  (filter (\<lambda>p. user_id p = userId \<and> end_date p \<noteq> None) (periods_table db)))))"

definition UserSettings_findOne :: "Database \<Rightarrow> string \<Rightarrow> error + UserSettings option" where
  "UserSettings_findOne db userId =
     (if \<not> available db then Inl UpstreamUnavailable
      else Inr (user_settings_table db userId))"

text \<open>\<^verbatim>\<open>private savePrediction(userId, prediction)\<close>\<close>

definition savePrediction :: "Database \<Rightarrow> string \<Rightarrow> PredictionResult \<Rightarrow> error + Database" where
  "savePrediction db userId prediction =
     (if \<not> available db then Inl UpstreamUnavailable
      else Inr (db\<lparr>predictions_table := predictions_table db @ [(userId, prediction)]\<rparr>))"

text \<open>
  \<^verbatim>\<open>private updateUserSettings(userId, stats)\<close>: \<^verbatim>\<open>findOrCreate\<close> followed by
  \<^verbatim>\<open>update\<close> leaves the row with the rounded averages in both cases.
\<close>

definition updateUserSettings :: "date \<Rightarrow> Database \<Rightarrow> string \<Rightarrow> CycleStats \<Rightarrow> error + Database" where
  "updateUserSettings today db userId stats =
     (if \<not> available db then Inl UpstreamUnavailable
      else Inr (db\<lparr>user_settings_table := (user_settings_table db)(userId \<mapsto>
                  \<lparr> avg_cycle_length = round (avgCycleLength stats),
                    avg_period_length = round (avgPeriodLength stats),
                    last_calculated_at = Some today \<rparr>)\<rparr>))"

subsection \<open>PredictionService: forecasts\<close>

text \<open>
  The ovulation offsets shared by all three forecast paths:
  \<^verbatim>\<open>ovulationDay = addDays(predictedStartDate, -14)\<close>,
  \<^verbatim>\<open>ovulationStart = addDays(ovulationDay, -5)\<close>,
  \<^verbatim>\<open>ovulationEnd = addDays(ovulationDay, 1)\<close>.
\<close>

definition ovulationDay_of :: "date \<Rightarrow> date" where
  "ovulationDay_of predictedStart = addDays predictedStart (- 14)"

text \<open>
  Lines 495 to 509 of \<^verbatim>\<open>predictNextPeriod\<close>: the statistical forecast from the
  fetched records. \<^verbatim>\<open>periods[0].start_date\<close> throws on an empty array.
\<close>

definition statisticalPrediction :: "Period list \<Rightarrow> error + PredictionWithStats" where
  "statisticalPrediction periods =
     (case periods of
        [] \<Rightarrow> Inl TypeError
      | p0 # rest \<Rightarrow>
          let stats = calculateCycleStats periods;
              predictedCycleLength = calculateWeightedCycleLength periods;
              lastPeriodStart = start_date p0;
              predictedStart = addDays lastPeriodStart (of_int (round predictedCycleLength));
              avgPeriodLen = calculateAveragePeriodLength periods;
              predictedEnd = addDays predictedStart (of_int (round avgPeriodLen) - 1);
              ovulationDay = ovulationDay_of predictedStart
          in Inr \<lparr> predictedStartDate = predictedStart,
                   predictedEndDate = predictedEnd,
                   ovulationStart = addDays ovulationDay (- 5),
                   ovulationEnd = addDays ovulationDay 1,
                   confidenceScore =
                     calculateConfidence (standardDeviation stats) (length periods)
                       (avgCycleLength stats),
                   predictedFlowIntensity = predictFlowIntensity periods,
                   cycleStats = stats \<rparr>)"

text \<open>
  \<^verbatim>\<open>private useDefaultPrediction(userId, periods)\<close>. \<^verbatim>\<open>settings?.avg_cycle_length || 28\<close>
  falls back to 28 when there is no row or the stored length is 0; \<^verbatim>\<open>new Date()\<close> is
  the current day.
\<close>

definition useDefaultPrediction ::
  "date \<Rightarrow> Database \<Rightarrow> string \<Rightarrow> Period list \<Rightarrow> error + PredictionWithStats" where
  "useDefaultPrediction today db userId periods =
     (case UserSettings_findOne db userId of
        Inl e \<Rightarrow> Inl e
      | Inr settings \<Rightarrow>
          let avgCycleLen = (case settings of None \<Rightarrow> 28
                  | Some s \<Rightarrow> if avg_cycle_length s = 0 then 28 else avg_cycle_length s);
              avgPeriodLen = (case settings of None \<Rightarrow> 5
                  | Some s \<Rightarrow> if avg_period_length s = 0 then 5 else avg_period_length s);
              lastPeriodStart = (case periods of [] \<Rightarrow> today | p0 # rest \<Rightarrow> start_date p0);
              predictedStart = addDays lastPeriodStart (of_int avgCycleLen);
              predictedEnd = addDays predictedStart (of_int avgPeriodLen - 1);
              ovulationDay = ovulationDay_of predictedStart
          in Inr \<lparr> predictedStartDate = predictedStart,
                   predictedEndDate = predictedEnd,
                   ovulationStart = addDays ovulationDay (- 5),
                   ovulationEnd = addDays ovulationDay 1,
                   confidenceScore = 0.40 + of_nat (length periods) * 0.1,
                   predictedFlowIntensity = None,
                   cycleStats = \<lparr> avgCycleLength = of_int avgCycleLen,
                                  avgPeriodLength = of_int avgPeriodLen,
                                  standardDeviation = 0,
                                  regularity = irregular,
                                  cyclesTracked = length periods \<rparr> \<rparr>)"

text \<open>
  \<^verbatim>\<open>async predictNextPeriod(userId)\<close>. The result carries the database as left by
  \<^verbatim>\<open>savePrediction\<close> and \<^verbatim>\<open>updateUserSettings\<close>.
\<close>

definition predictNextPeriod ::
  "date \<Rightarrow> Database \<Rightarrow> string \<Rightarrow> error + (PredictionWithStats \<times> Database)" where
  "predictNextPeriod today db userId =
     (case Period_findAll db userId of
        Inl e \<Rightarrow> Inl e
      | Inr periods \<Rightarrow>
          if length periods < 3 then
            (case useDefaultPrediction today db userId periods of
               Inl e \<Rightarrow> Inl e
             | Inr p \<Rightarrow> Inr (p, db))
          else
            (case statisticalPrediction periods of
               Inl e \<Rightarrow> Inl e
             | Inr p \<Rightarrow>
                 (case savePrediction db userId (PredictionResult.truncate p) of
                    Inl e \<Rightarrow> Inl e
                  | Inr db1 \<Rightarrow>
                      (case updateUserSettings today db1 userId (cycleStats p) of
                         Inl e \<Rightarrow> Inl e
                       | Inr db2 \<Rightarrow> Inr (p, db2)))))"

text \<open>
  One iteration of the loop of \<^verbatim>\<open>predictMultipleCycles\<close>, for loop index \<open>i\<close>, from
  the first prediction and the predicted start of \<^verbatim>\<open>predictions[i - 1]\<close>.
\<close>

definition cycleAfter :: "PredictionWithStats \<Rightarrow> date \<Rightarrow> nat \<Rightarrow> NumberedPrediction" where
  "cycleAfter firstPrediction previousStart i =
     (let avgCycleLen = avgCycleLength (cycleStats firstPrediction);
          predictedStart = addDays previousStart avgCycleLen;
          predictedEnd = addDays predictedStart
             (of_int (round (avgPeriodLength (cycleStats firstPrediction))) - 1);
          ovulationDay = ovulationDay_of predictedStart;
          confidence = confidenceScore firstPrediction * 0.95 ^ i
      in \<lparr> predictedStartDate = predictedStart,
           predictedEndDate = predictedEnd,
           ovulationStart = addDays ovulationDay (- 5),
           ovulationEnd = addDays ovulationDay 1,
           confidenceScore = max confidence 0.40,
           predictedFlowIntensity = predictedFlowIntensity firstPrediction,
           cycleNumber = i + 1 \<rparr>)"

text \<open>
  The loop \<^verbatim>\<open>for (let i = 1; i < numberOfCycles; i++)\<close>: \<open>remaining\<close> counts the
  iterations still to run, \<open>previousStart\<close> is the start of the prediction pushed last.
\<close>

fun cyclesLoop :: "PredictionWithStats \<Rightarrow> date \<Rightarrow> nat \<Rightarrow> nat \<Rightarrow> NumberedPrediction list" where
  "cyclesLoop firstPrediction previousStart i 0 = []"
| "cyclesLoop firstPrediction previousStart i (Suc remaining) =
     (let next = cycleAfter firstPrediction previousStart i
      in next # cyclesLoop firstPrediction (predictedStartDate next) (i + 1) remaining)"

text \<open>The array \<^verbatim>\<open>predictions\<close> built from the first prediction.\<close>

definition cyclesFrom :: "PredictionWithStats \<Rightarrow> int \<Rightarrow> NumberedPrediction list" where
  "cyclesFrom firstPrediction numberOfCycles =
     PredictionResult.extend (PredictionResult.truncate firstPrediction)
         (NumberedPrediction.fields 1)
       # cyclesLoop firstPrediction (predictedStartDate firstPrediction) 1
           (nat (numberOfCycles - 1))"

text \<open>\<^verbatim>\<open>async predictMultipleCycles(userId, numberOfCycles)\<close>\<close>

definition predictMultipleCycles ::
  "date \<Rightarrow> Database \<Rightarrow> string \<Rightarrow> int \<Rightarrow> error + (MultiplePredictions \<times> Database)" where
  "predictMultipleCycles today db userId numberOfCycles =
     (case predictNextPeriod today db userId of
        Inl e \<Rightarrow> Inl e
      | Inr (firstPrediction, db') \<Rightarrow>
          Inr (\<lparr> predictions = cyclesFrom firstPrediction numberOfCycles,
                 multiCycleStats = cycleStats firstPrediction \<rparr>, db'))"

subsection \<open>The Redis client\<close>

datatype RedisCommand = GET | SETEX | KEYS | DEL

text \<open>
  A connected \<^verbatim>\<open>ioredis\<close> client together with its server: the stored entries (key,
  serialised value, expiry time in seconds) in insertion order, the server clock, and
  the commands whose call currently throws (connection lost, server error). A failing
  command changes nothing.
\<close>

record 's Redis =
  entries :: "(string \<times> 's \<times> nat) list"
  clock :: nat
  failing :: "RedisCommand \<Rightarrow> bool"

text \<open>
  Glob matching of \<^verbatim>\<open>KEYS pattern\<close>: \<^verbatim>\<open>*\<close> matches any run of characters, \<^verbatim>\<open>?\<close> one
  character, a backslash takes the next character literally. Character classes are left
  out: the patterns of this program are a fixed prefix followed by a user id, and user
  ids are UUIDs.
\<close>

fun glob_match :: "string \<Rightarrow> string \<Rightarrow> bool" where
  "glob_match [] s = (s = [])"
| "glob_match (c # p) s =
     (if c = CHR ''*'' then
        glob_match p s \<or> (case s of [] \<Rightarrow> False | x # t \<Rightarrow> glob_match (c # p) t)
      else if c = CHR ''?'' then
        (case s of [] \<Rightarrow> False | x # t \<Rightarrow> glob_match p t)
      else if c = CHR 0x5C then
        (case p of
           [] \<Rightarrow> (case s of [] \<Rightarrow> False | x # t \<Rightarrow> x = c \<and> glob_match [] t)
         | e # p' \<Rightarrow> (case s of [] \<Rightarrow> False | x # t \<Rightarrow> x = e \<and> glob_match p' t))
      else
        (case s of [] \<Rightarrow> False | x # t \<Rightarrow> x = c \<and> glob_match p t))"

text \<open>An entry is visible until its expiry time; expired entries are removed lazily.\<close>

definition live :: "'s Redis \<Rightarrow> string \<times> 's \<times> nat \<Rightarrow> bool" where
  "live r entry = (clock r < snd (snd entry))"

definition redis_get :: "'s Redis \<Rightarrow> string \<Rightarrow> error + 's option" where
  "redis_get r key =
     (if failing r GET then Inl RedisError
      else Inr (case map_of (filter (live r) (entries r)) key of
                  None \<Rightarrow> None
                | Some (v, expiry) \<Rightarrow> Some v))"

definition redis_setex :: "'s Redis \<Rightarrow> string \<Rightarrow> nat \<Rightarrow> 's \<Rightarrow> error + 's Redis" where
  "redis_setex r key ttl v =
     (if failing r SETEX then Inl RedisError
      else Inr (r\<lparr>entries := AList.update key (v, clock r + ttl) (entries r)\<rparr>))"

definition redis_keys :: "'s Redis \<Rightarrow> string \<Rightarrow> error + string list" where
  "redis_keys r pattern =
     (if failing r KEYS then Inl RedisError
      else Inr (filter (glob_match pattern) (map fst (filter (live r) (entries r)))))"

definition redis_del :: "'s Redis \<Rightarrow> string list \<Rightarrow> error + 's Redis" where
  "redis_del r keys =
     (if failing r DEL then Inl RedisError
      else Inr (r\<lparr>entries := filter (\<lambda>entry. fst entry \<notin> set keys) (entries r)\<rparr>))"

subsection \<open>cacheHelpers (config/redis.ts)\<close>

text \<open>
  \<^verbatim>\<open>JSON.stringify\<close> and \<^verbatim>\<open>JSON.parse\<close> for the cached values of type \<open>'v\<close> and their
  serialised form \<open>'s\<close>; both can throw.
\<close>

record ('v, 's) JSON =
  stringify :: "'v \<Rightarrow> error + 's"
  parse :: "'s \<Rightarrow> error + 'v"

text \<open>\<^verbatim>\<open>try { body } catch (error) { handler }\<close>\<close>

definition try_catch :: "error + 'a \<Rightarrow> (error \<Rightarrow> error + 'a) \<Rightarrow> error + 'a" where
  "try_catch body handler = (case body of Inl e \<Rightarrow> handler e | Inr v \<Rightarrow> Inr v)"

text \<open>
  The module variable \<^verbatim>\<open>redis: Redis | null\<close> is \<open>None\<close> when \<^verbatim>\<open>REDIS_URL\<close> is not
  set. Each helper returns the resolution of its promise (\<open>Inl\<close>: rejected); \<^verbatim>\<open>set\<close>
  and \<^verbatim>\<open>delete\<close> resolve to the client as they leave it.

  \<^verbatim>\<open>async get<T>(key)\<close>: \<open>None\<close> is \<^verbatim>\<open>null\<close>, a miss. A stored text is never empty
  (it is the output of \<^verbatim>\<open>JSON.stringify\<close>), so \<^verbatim>\<open>cached ? ... : null\<close> tells a
  missing key from a present one.
\<close>

definition cacheHelpers_get ::
  "('v, 's) JSON \<Rightarrow> 's Redis option \<Rightarrow> string \<Rightarrow> error + 'v option" where
  "cacheHelpers_get json redis key =
     (case redis of
        None \<Rightarrow> Inr None
      | Some r \<Rightarrow>
          try_catch
            (case redis_get r key of
               Inl e \<Rightarrow> Inl e
             | Inr None \<Rightarrow> Inr None
             | Inr (Some cached) \<Rightarrow>
                 (case parse json cached of Inl e \<Rightarrow> Inl e | Inr v \<Rightarrow> Inr (Some v)))
            (\<lambda>error. Inr None))"

text \<open>\<^verbatim>\<open>async set(key, value, ttl = 3600)\<close>\<close>

definition cacheHelpers_set ::
  "('v, 's) JSON \<Rightarrow> 's Redis option \<Rightarrow> string \<Rightarrow> 'v \<Rightarrow> nat \<Rightarrow> error + 's Redis option" where
  "cacheHelpers_set json redis key v ttl =
     (case redis of
        None \<Rightarrow> Inr redis
      | Some r \<Rightarrow>
          try_catch
            (case stringify json v of
               Inl e \<Rightarrow> Inl e
             | Inr text \<Rightarrow>
                 (case redis_setex r key ttl text of
                    Inl e \<Rightarrow> Inl e
                  | Inr r' \<Rightarrow> Inr (Some r')))
            (\<lambda>error. Inr redis))"

text \<open>\<^verbatim>\<open>async delete(pattern)\<close>\<close>

definition cacheHelpers_delete :: "'s Redis option \<Rightarrow> string \<Rightarrow> error + 's Redis option" where
  "cacheHelpers_delete redis pattern =
     (case redis of
        None \<Rightarrow> Inr redis
      | Some r \<Rightarrow>
          try_catch
            (case redis_keys r pattern of
               Inl e \<Rightarrow> Inl e
             | Inr keys \<Rightarrow>
                 if length keys > 0 then
                   (case redis_del r keys of Inl e \<Rightarrow> Inl e | Inr r' \<Rightarrow> Inr (Some r'))
                 else Inr redis)
            (\<lambda>error. Inr redis))"

subsection \<open>Routes\<close>

text \<open>The \<^verbatim>\<open>responseData\<close> object of \<^verbatim>\<open>GET /next-period\<close> (routes/predictions.ts).\<close>

record NextPeriodView =
  predicted_start_date :: date
  predicted_end_date :: date
  confidence_score :: real
  predicted_flow_intensity :: "FlowIntensity option"

record OvulationView =
  ovulation_start_date :: date
  ovulation_end_date :: date

text \<open>\<^verbatim>\<open>toFixed(2)\<close> is kept as the number of hundredths.\<close>

record CycleStatsView =
  rounded_avg_cycle_length :: int
  rounded_avg_period_length :: int
  cycle_regularity :: Regularity
  cycle_variation :: int
  cycles_tracked :: nat

record ResponseData =
  next_period :: NextPeriodView
  ovulation :: OvulationView
  cycle_stats :: CycleStatsView

definition responseData_of :: "PredictionWithStats \<Rightarrow> ResponseData" where
  "responseData_of prediction =
     \<lparr> next_period =
         \<lparr> predicted_start_date = predictedStartDate prediction,
           predicted_end_date = predictedEndDate prediction,
           confidence_score = confidenceScore prediction,
           predicted_flow_intensity = predictedFlowIntensity prediction \<rparr>,
       ovulation =
         \<lparr> ovulation_start_date = ovulationStart prediction,
           ovulation_end_date = ovulationEnd prediction \<rparr>,
       cycle_stats =
         \<lparr> rounded_avg_cycle_length = round (avgCycleLength (cycleStats prediction)),
           rounded_avg_period_length = round (avgPeriodLength (cycleStats prediction)),
           cycle_regularity = regularity (cycleStats prediction),
           cycle_variation = round (standardDeviation (cycleStats prediction) * 100),
           cycles_tracked = cyclesTracked (cycleStats prediction) \<rparr> \<rparr>"

text \<open>
  What a handler does with the response: \<^verbatim>\<open>res.status(n).json(body)\<close> or
  \<^verbatim>\<open>next(error)\<close>.
\<close>

datatype Body =
    PredictionBody ResponseData bool
  | PeriodBody Period
  | ValidationErrorBody

datatype Response = Json nat Body | Next error

text \<open>The server state the handlers act on.\<close>

record 's Server =
  srv_db :: Database
  srv_redis :: "'s Redis option"

text \<open>
  \<^verbatim>\<open>router.get('/next-period', ...)\<close> for the authenticated user \<open>userId\<close>.
  \<open>PredictionBody d c\<close> is \<^verbatim>\<open>{ success: true, data: d, cached: c }\<close>.
\<close>

definition get_next_period ::
  "(ResponseData, 's) JSON \<Rightarrow> date \<Rightarrow> 's Server \<Rightarrow> string \<Rightarrow> Response \<times> 's Server" where
  "get_next_period json today srv userId =
     (let cacheKey = ''predictions:'' @ userId
      in case cacheHelpers_get json (srv_redis srv) cacheKey of
           Inl e \<Rightarrow> (Next e, srv)
         | Inr (Some cachedPrediction) \<Rightarrow> (Json 200 (PredictionBody cachedPrediction True), srv)
         | Inr None \<Rightarrow>
             (case predictNextPeriod today (srv_db srv) userId of
                Inl e \<Rightarrow> (Next e, srv)
              | Inr (prediction, db') \<Rightarrow>
                  let responseData = responseData_of prediction
                  in case cacheHelpers_set json (srv_redis srv) cacheKey responseData 3600 of
                       Inl e \<Rightarrow> (Next e, srv\<lparr>srv_db := db'\<rparr>)
                     | Inr redis' \<Rightarrow>
                         (Json 200 (PredictionBody responseData False),
                          \<lparr> srv_db = db', srv_redis = redis' \<rparr>)))"

text \<open>
  The request body of \<^verbatim>\<open>POST /\<close> on the periods route: either it fails
  \<^verbatim>\<open>createPeriodSchema\<close> or it carries a start date, an optional end date and an
  optional flow intensity.
\<close>

datatype CreatePeriodRequest =
    Malformed
  | WellFormed date "date option" "FlowIntensity option"

definition Period_create :: "Database \<Rightarrow> Period \<Rightarrow> error + (Period \<times> Database)" where
  "Period_create d row =
     (if \<not> available d then Inl UpstreamUnavailable
      else Inr (row, d\<lparr>periods_table := periods_table d @ [row]\<rparr>))"

text \<open>\<^verbatim>\<open>router.post('/', ...)\<close> of the periods route, for the authenticated user.\<close>

definition post_period ::
  "'s Server \<Rightarrow> string \<Rightarrow> CreatePeriodRequest \<Rightarrow> Response \<times> 's Server" where
  "post_period srv userId body =
     (case body of
        Malformed \<Rightarrow> (Json 400 ValidationErrorBody, srv)
      | WellFormed start finish flow \<Rightarrow>
          (case Period_create (srv_db srv)
                  \<lparr> user_id = userId, start_date = start, end_date = finish,
                    flow_intensity = flow \<rparr> of
             Inl e \<Rightarrow> (Next e, srv)
           | Inr (period, db') \<Rightarrow>
               (case cacheHelpers_delete (srv_redis srv) (''prediction:'' @ userId) of
                  Inl e \<Rightarrow> (Next e, srv\<lparr>srv_db := db'\<rparr>)
                | Inr redis' \<Rightarrow>
                    (Json 201 (PeriodBody period), \<lparr> srv_db = db', srv_redis = redis' \<rparr>))))"

subsection \<open>Reference notions and sample histories\<close>

text \<open>
  The arithmetic mean as the specification writes it, for the comparison with
  \<^const>\<open>average\<close>; the mean of no sample is taken to be 0, which is the convention of
  the specification for the empty list.
\<close>

definition mean :: "real list \<Rightarrow> real" where
  "mean xs = (if xs = [] then 0 else sum_list xs / of_nat (length xs))"

text \<open>
  A record of user \<open>u\<close> that starts on day \<open>start\<close> and lasts \<open>days\<close> days, and the
  newest-first history whose consecutive start dates are the given intervals apart.
\<close>

definition recordOf :: "string \<Rightarrow> date \<Rightarrow> int \<Rightarrow> Period" where
  "recordOf u start days =
     \<lparr> user_id = u, start_date = start, end_date = Some (start + days - 1),
       flow_intensity = None \<rparr>"

fun historyOf :: "string \<Rightarrow> date \<Rightarrow> int \<Rightarrow> int list \<Rightarrow> Period list" where
  "historyOf u start days [] = [recordOf u start days]"
| "historyOf u start days (i # rest) = recordOf u start days # historyOf u (start - i) days rest"

text \<open>A reachable database that holds the given rows and nothing else.\<close>

definition databaseOf :: "Period list \<Rightarrow> Database" where
  "databaseOf rows =
     \<lparr> available = True, periods_table = rows, user_settings_table = Map.empty,
       predictions_table = [] \<rparr>"

text \<open>
  Three records 28 days apart, five days each, and the forecast the service returns for
  them.
\<close>

definition db3 :: Database where
  "db3 = databaseOf (historyOf ''u1'' 20000 5 [28, 28])"

definition forecast3 :: PredictionWithStats where
  "forecast3 = \<lparr> predictedStartDate = 20028, predictedEndDate = 20032,
           ovulationStart = 20009, ovulationEnd = 20015,
           confidenceScore = 0.94, predictedFlowIntensity = None,
           cycleStats = \<lparr> avgCycleLength = 28, avgPeriodLength = 5, standardDeviation = 0,
                          regularity = very_regular, cyclesTracked = 2 \<rparr> \<rparr>"

text \<open>
  An interval sample as the specification defines it: the whole days between the start
  dates of two consecutive records; it is valid when it lies in \<open>[21, 45]\<close>.
\<close>

definition intervalSamples :: "Period list \<Rightarrow> real list" where
  "intervalSamples periods =
     map (\<lambda>(newer, older). of_int \<bar>start_date newer - start_date older\<bar>)
       (zip periods (tl periods))"

definition validSample :: "real \<Rightarrow> bool" where
  "validSample x = (21 \<le> x \<and> x \<le> 45)"

text \<open>One record only, and the default forecast the service returns for it.\<close>

definition db1 :: Database where
  "db1 = databaseOf (historyOf ''u1'' 20000 5 [])"

definition forecast1 :: PredictionWithStats where
  "forecast1 = \<lparr> predictedStartDate = 20028, predictedEndDate = 20032,
           ovulationStart = 20009, ovulationEnd = 20015,
           confidenceScore = 0.5, predictedFlowIntensity = None,
           cycleStats = \<lparr> avgCycleLength = 28, avgPeriodLength = 5, standardDeviation = 0,
                          regularity = irregular, cyclesTracked = 1 \<rparr> \<rparr>"

text \<open>
  Three records 60 days apart (no interval passes the filter) and three records 28 days
  apart that last 15 days each (no duration is plausible).
\<close>

definition db60 :: Database where
  "db60 = databaseOf (historyOf ''u1'' 20000 5 [60, 60])"

definition dbLong :: Database where
  "dbLong = databaseOf (historyOf ''u1'' 20000 15 [28, 28])"

text \<open>A plausible record duration, as the specification defines it.\<close>

definition plausibleDuration :: "real \<Rightarrow> bool" where
  "plausibleDuration l = (2 \<le> l \<and> l \<le> 10)"

text \<open>
  Scenario B of the specification: nine records whose eight intervals are, newest first,
  28, 27, 27, 29, 28, 26, 28, 29.
\<close>

definition scenarioB :: "Period list" where
  "scenarioB = historyOf ''u1'' 20000 5 [28, 27, 27, 29, 28, 26, 28, 29]"

text \<open>
  Five records whose intervals are, newest first, 22, 22, 22, 34: the unweighted mean
  is 25, the weighted mean 25.6.
\<close>

definition dbW :: Database where
  "dbW = databaseOf (historyOf ''u1'' 20000 5 [22, 22, 22, 34])"

text \<open>Four records whose intervals are 28, 29, 29: the mean is \<open>86 / 3\<close>.\<close>

definition dbF :: Database where
  "dbF = databaseOf (historyOf ''u1'' 20000 5 [28, 29, 29])"

text \<open>
  A serialisation that never throws and round-trips, a connected Redis without entries,
  and one on which every command fails.
\<close>

definition idJSON :: "('v, 'v) JSON" where
  "idJSON = \<lparr> stringify = Inr, parse = Inr \<rparr>"

definition emptyRedis :: "'s Redis" where
  "emptyRedis = \<lparr> entries = [], clock = 0, failing = (\<lambda>command. False) \<rparr>"

definition downRedis :: "nat Redis" where
  "downRedis = \<lparr> entries = [(''k'', 7, 3600)], clock = 0, failing = (\<lambda>command. True) \<rparr>"

text \<open>
  A session of user \<open>u1\<close> on day 20010: the server starts with no record and an empty
  cache (\<open>srv0\<close>); a first read of the forecast caches the default forecast \<open>forecast0\<close>
  (\<open>srv1\<close>); then the user logs a period (\<open>srv2\<close>).
\<close>

definition forecast0 :: PredictionWithStats where
  "forecast0 = \<lparr> predictedStartDate = 20038, predictedEndDate = 20042,
           ovulationStart = 20019, ovulationEnd = 20025,
           confidenceScore = 0.4, predictedFlowIntensity = None,
           cycleStats = \<lparr> avgCycleLength = 28, avgPeriodLength = 5, standardDeviation = 0,
                          regularity = irregular, cyclesTracked = 0 \<rparr> \<rparr>"

definition srv0 :: "ResponseData Server" where
  "srv0 = \<lparr> srv_db = databaseOf [], srv_redis = Some emptyRedis \<rparr>"

definition srv1 :: "ResponseData Server" where
  "srv1 = \<lparr> srv_db = databaseOf [],
             srv_redis = Some (emptyRedis\<lparr>entries :=
                [(''predictions:u1'', responseData_of forecast0, 3600)]\<rparr>) \<rparr>"

definition srv2 :: "ResponseData Server" where
  "srv2 = srv1\<lparr>srv_db := db1\<rparr>"

definition newPeriod :: CreatePeriodRequest where
  "newPeriod = WellFormed 20000 (Some 20004) None"

section \<open>Properties\<close>

subsection \<open>Dates\<close>

lemma daysBetween_eq: "daysBetween d1 d2 = of_int \<bar>d2 - d1\<bar>"
proof -
  have "(getTime d2 - getTime d1) / (24 * 60 * 60 * 1000) = of_int (d2 - d1)"
    by (simp add: getTime_def field_simps)
  moreover have "\<bar>real_of_int (d2 - d1)\<bar> = of_int \<bar>d2 - d1\<bar>"
    by (simp only: of_int_abs)
  ultimately have "round \<bar>(getTime d2 - getTime d1) / (24 * 60 * 60 * 1000)\<bar> = \<bar>d2 - d1\<bar>"
    by (simp only: round_of_int)
  then show ?thesis
    unfolding daysBetween_def Let_def by simp
qed

lemma getDate_ge_1: "1 \<le> getDate d"
proof -
  have "(153 * ((5 * doy + 2) div 153) + 2) div 5 \<le> doy" for doy :: int
    by linarith
  then have "1 \<le> doy - (153 * ((5 * doy + 2) div 153) + 2) div 5 + 1" for doy :: int
    by (simp only: le_add_same_cancel2 diff_ge_0_iff_ge)
  then show ?thesis unfolding getDate_def Let_def by blast
qed

text \<open>Adding a whole number of days is exact, whatever its sign.\<close>

lemma addDays_int: "addDays d (of_int k) = d + k"
proof -
  have "ToIntegerOrInfinity (of_int (getDate d) + of_int k) = getDate d + k"
    unfolding ToIntegerOrInfinity_def by (simp flip: of_int_add)
  then show ?thesis unfolding addDays_def Let_def by simp
qed

text \<open>A fractional number of days that is not negative loses its fraction.\<close>

lemma addDays_nonneg:
  assumes "0 \<le> days"
  shows "addDays d days = d + \<lfloor>days\<rfloor>"
proof -
  have "0 \<le> of_int (getDate d) + days" using getDate_ge_1[of d] assms by simp
  then have "ToIntegerOrInfinity (of_int (getDate d) + days) = getDate d + \<lfloor>days\<rfloor>"
    unfolding ToIntegerOrInfinity_def by simp
  then show ?thesis unfolding addDays_def Let_def by simp
qed

lemma addDays_numeral [simp]:
  "addDays d (numeral n) = d + numeral n"
  "addDays d (- numeral n) = d - numeral n"
  "addDays d 1 = d + 1"
  "addDays d 0 = d"
  "addDays d (of_int k - 1) = d + k - 1"
  using addDays_int[of d "numeral n"] addDays_int[of d "- numeral n"] addDays_int[of d 1]
    addDays_int[of d 0] addDays_int[of d "k - 1"]
  by simp_all

subsection \<open>Cycle lengths and the weighted mean\<close>

lemma calculateCycleLengths_Cons2:
  "calculateCycleLengths (p # q # ps) =
     (if 21 \<le> \<bar>start_date p - start_date q\<bar> \<and> \<bar>start_date p - start_date q\<bar> \<le> 45
      then [of_int \<bar>start_date p - start_date q\<bar>] else [])
       @ calculateCycleLengths (q # ps)"
proof -
  define k where "k = \<bar>start_date p - start_date q\<bar>"
  have k: "daysBetween (start_date q) (start_date p) = of_int k"
    by (simp only: daysBetween_eq k_def)
  have "(21 \<le> real_of_int k) = (21 \<le> k)" "(real_of_int k \<le> 45) = (k \<le> 45)"
    by linarith+
  then show ?thesis
    unfolding calculateCycleLengths.simps Let_def k k_def[symmetric] by simp
qed

lemma calculateCycleLengths_range:
  "x \<in> set (calculateCycleLengths ps) \<Longrightarrow> 21 \<le> x \<and> x \<le> 45"
proof (induction ps rule: induct_list012)
  case (3 p q ps)
  then show ?case
    by (auto simp only: calculateCycleLengths_Cons2 set_append set_simps split: if_splits)
qed simp_all

lemma calculateCycleLengths_length:
  "length (calculateCycleLengths ps) \<le> length ps - 1"
proof (induction ps rule: induct_list012)
  case (3 p q ps)
  then show ?case by (simp add: calculateCycleLengths_Cons2 del: calculateCycleLengths.simps)
qed simp_all

text \<open>The cycle lengths are the interval samples that pass the validity filter.\<close>

lemma calculateCycleLengths_filter:
  "calculateCycleLengths periods = filter validSample (intervalSamples periods)"
proof (induction periods rule: induct_list012)
  case (3 p q ps)
  then show ?case
    by (simp add: intervalSamples_def validSample_def daysBetween_eq Let_def)
qed (simp_all add: intervalSamples_def)

lemma average_mean: "average xs = mean xs"
  by (simp add: average_def mean_def)

lemma weighted_tiers:
  "weightedCycleLength xs =
     (if length xs \<le> 3 then average xs
      else if length xs \<le> 6 then average (take 3 xs) * 0.7 + average (drop 3 xs) * 0.3
      else average (take 3 xs) * 0.5 + average (take 3 (drop 3 xs)) * 0.3
             + average (drop 6 xs) * 0.2)"
proof -
  have s1: "slice 0 (min 3 (length xs)) xs = take 3 xs"
    by (simp add: slice_def min_def)
  have s2: "slice 3 (min 6 (length xs)) xs = take 3 (drop 3 xs)"
    by (simp add: slice_def min_def take_drop)
  consider "length xs \<le> 3" | "3 < length xs" "length xs \<le> 6" | "6 < length xs" by linarith
  then show ?thesis
  proof cases
    case 1
    then show ?thesis
      unfolding weightedCycleLength_def s1 s2 Let_def by (simp add: average_def)
  next
    case 2
    then have "take 3 (drop 3 xs) = drop 3 xs" by simp
    with 2 show ?thesis
      unfolding weightedCycleLength_def s1 s2 Let_def by simp
  next
    case 3
    then show ?thesis
      unfolding weightedCycleLength_def s1 s2 Let_def by simp
  qed
qed

subsection \<open>The two paths of the single-cycle forecast\<close>

lemma findAll_available: "Period_findAll db u = Inr periods \<Longrightarrow> available db"
  unfolding Period_findAll_def by (simp split: if_splits)

lemma predictNextPeriod_cases:
  assumes "predictNextPeriod today db u = Inr (p, db')"
  obtains periods where "Period_findAll db u = Inr periods" "length periods < 3"
      "useDefaultPrediction today db u periods = Inr p" "db' = db"
  | periods where "Period_findAll db u = Inr periods" "3 \<le> length periods"
      "statisticalPrediction periods = Inr p"
  using assms unfolding predictNextPeriod_def
  by (auto split: sum.splits if_splits)

lemma predictNextPeriod_statistical:
  assumes "Period_findAll db u = Inr periods" "3 \<le> length periods"
      and "statisticalPrediction periods = Inr p"
  shows "predictNextPeriod today db u =
     Inr (p, db\<lparr> predictions_table := predictions_table db @ [(u, PredictionResult.truncate p)],
                 user_settings_table := (user_settings_table db)(u \<mapsto>
                    \<lparr> avg_cycle_length = round (avgCycleLength (cycleStats p)),
                      avg_period_length = round (avgPeriodLength (cycleStats p)),
                      last_calculated_at = Some today \<rparr>) \<rparr>)"
  using assms findAll_available[OF assms(1)]
  unfolding predictNextPeriod_def savePrediction_def updateUserSettings_def
  by simp

lemma predictNextPeriod_default:
  assumes "Period_findAll db u = Inr periods" "length periods < 3"
  shows "predictNextPeriod today db u =
     (case useDefaultPrediction today db u periods of Inl e \<Rightarrow> Inl e | Inr p \<Rightarrow> Inr (p, db))"
  using assms unfolding predictNextPeriod_def by simp

lemma statisticalPrediction_Cons:
  "statisticalPrediction (p0 # rest) =
     Inr \<lparr> predictedStartDate = start_date p0 + round (calculateWeightedCycleLength (p0 # rest)),
           predictedEndDate = start_date p0 + round (calculateWeightedCycleLength (p0 # rest))
              + round (calculateAveragePeriodLength (p0 # rest)) - 1,
           ovulationStart = start_date p0 + round (calculateWeightedCycleLength (p0 # rest)) - 19,
           ovulationEnd = start_date p0 + round (calculateWeightedCycleLength (p0 # rest)) - 13,
           confidenceScore =
             calculateConfidence (standardDeviation_of (calculateCycleLengths (p0 # rest)))
               (length (p0 # rest)) (average (calculateCycleLengths (p0 # rest))),
           predictedFlowIntensity = predictFlowIntensity (p0 # rest),
           cycleStats = calculateCycleStats (p0 # rest) \<rparr>"
  unfolding statisticalPrediction_def Let_def list.case ovulationDay_of_def
  by (simp add: addDays_int calculateCycleStats_def Let_def del: calculateCycleLengths.simps)

lemma statisticalPrediction_confidence:
  "statisticalPrediction periods = Inr p \<Longrightarrow>
     confidenceScore p = calculateConfidence (standardDeviation (cycleStats p)) (length periods)
        (avgCycleLength (cycleStats p))"
  unfolding statisticalPrediction_def by (auto simp: Let_def split: list.splits)

lemma statisticalPrediction_stats:
  "statisticalPrediction periods = Inr p \<Longrightarrow> cycleStats p = calculateCycleStats periods"
  unfolding statisticalPrediction_def by (auto simp: Let_def split: list.splits)

lemma useDefaultPrediction_confidence:
  "useDefaultPrediction today db u periods = Inr p \<Longrightarrow>
     confidenceScore p = 0.40 + of_nat (length periods) * 0.1"
  unfolding useDefaultPrediction_def by (auto simp: Let_def split: sum.splits)

lemma useDefaultPrediction_tracked:
  "useDefaultPrediction today db u periods = Inr p \<Longrightarrow>
     cyclesTracked (cycleStats p) = length periods"
  unfolding useDefaultPrediction_def by (auto simp: Let_def split: sum.splits)

subsection \<open>Evaluation of the sample histories\<close>

lemmas history_simps =
  calculateCycleLengths_Cons2 recordOf_def calculateWeightedCycleLength_def
  weightedCycleLength_def slice_def calculateAveragePeriodLength_def periodLengths_of_def
  List.map_filter_simps daysBetween_eq calculateCycleStats_def classifyRegularity_def
  predictFlowIntensity_def standardDeviation_of_def average_def calculateConfidence_def
  unclampedConfidence_def baseConfidence_def Let_def

lemma findAll_db3: "Period_findAll db3 ''u1'' = Inr (historyOf ''u1'' 20000 5 [28, 28])"
  by (simp add: Period_findAll_def databaseOf_def recordOf_def db3_def)

lemma statisticalPrediction_db3:
  "statisticalPrediction (historyOf ''u1'' 20000 5 [28, 28]) = Inr forecast3"
  by (simp add: statisticalPrediction_Cons history_simps forecast3_def
      del: calculateCycleLengths.simps(1))

lemma predictNextPeriod_db3:
  "\<exists>d. predictNextPeriod 20010 db3 ''u1'' = Inr (forecast3, d)"
  by (simp add: predictNextPeriod_statistical[OF findAll_db3 _ statisticalPrediction_db3])

lemma findAll_db1: "Period_findAll db1 ''u1'' = Inr (historyOf ''u1'' 20000 5 [])"
  by (simp add: Period_findAll_def databaseOf_def recordOf_def db1_def)

lemma predictNextPeriod_db1: "predictNextPeriod 20010 db1 ''u1'' = Inr (forecast1, db1)"
proof -
  have "useDefaultPrediction 20010 db1 ''u1'' (historyOf ''u1'' 20000 5 []) = Inr forecast1"
    by (simp add: useDefaultPrediction_def UserSettings_findOne_def db1_def databaseOf_def
        ovulationDay_of_def recordOf_def forecast1_def)
  then show ?thesis
    by (simp add: predictNextPeriod_default[OF findAll_db1])
qed

subsection \<open>Confidence bounds\<close>

lemma calculateConfidence_bounds:
  "0.40 \<le> calculateConfidence sd n m \<and> calculateConfidence sd n m \<le> 0.95"
  unfolding calculateConfidence_def Let_def by simp

lemma predictNextPeriod_confidence_bounds:
  assumes "predictNextPeriod today db u = Inr (p, db')"
  shows "0.40 \<le> confidenceScore p \<and> confidenceScore p \<le> 0.95"
  using assms
proof (cases rule: predictNextPeriod_cases)
  case (1 periods)
  then have "confidenceScore p = 0.40 + of_nat (length periods) * 0.1"
    by (simp add: useDefaultPrediction_confidence)
  moreover have "real (length periods) \<le> 2" using 1(2) by simp
  ultimately show ?thesis by simp
next
  case (2 periods)
  then show ?thesis
    using calculateConfidence_bounds by (simp add: statisticalPrediction_confidence)
qed

lemma cycleAfter_start:
  "predictedStartDate (cycleAfter f s i) = addDays s (avgCycleLength (cycleStats f))"
  unfolding cycleAfter_def Let_def by simp

lemma cycleAfter_confidence:
  assumes "0.40 \<le> confidenceScore f" "confidenceScore f \<le> 0.95"
  shows "0.40 \<le> confidenceScore (cycleAfter f s i) \<and> confidenceScore (cycleAfter f s i) \<le> 0.95"
proof -
  have "(0.95::real) ^ i \<le> 1" by (simp add: power_le_one)
  then have "confidenceScore f * 0.95 ^ i \<le> confidenceScore f * 1"
    using assms(1) by (intro mult_left_mono) simp_all
  then have le: "confidenceScore f * 0.95 ^ i \<le> 0.95" using assms(2) by linarith
  have eq: "confidenceScore (cycleAfter f s i) = max (confidenceScore f * 0.95 ^ i) 0.40"
    unfolding cycleAfter_def Let_def by simp
  have "(0.40::real) \<le> 0.95" by simp
  with le have "max (confidenceScore f * 0.95 ^ i) 0.40 \<le> 0.95" by (rule max.boundedI)
  moreover have "0.40 \<le> max (confidenceScore f * 0.95 ^ i) 0.40" by (rule max.cobounded2)
  ultimately show ?thesis unfolding eq by blast
qed

lemma cyclesLoop_confidence:
  assumes "0.40 \<le> confidenceScore f" "confidenceScore f \<le> 0.95"
      and "q \<in> set (cyclesLoop f s i n)"
  shows "0.40 \<le> confidenceScore q \<and> confidenceScore q \<le> 0.95"
  using assms(3)
proof (induction n arbitrary: s i)
  case 0
  then show ?case by simp
next
  case (Suc n)
  then show ?case using cycleAfter_confidence[OF assms(1,2)] by (auto simp: Let_def)
qed

lemma cyclesFrom_confidence:
  assumes "0.40 \<le> confidenceScore f" "confidenceScore f \<le> 0.95"
      and "q \<in> set (cyclesFrom f n)"
  shows "0.40 \<le> confidenceScore q \<and> confidenceScore q \<le> 0.95"
  using assms cyclesLoop_confidence[OF assms(1,2)]
  unfolding cyclesFrom_def
  by (auto simp: PredictionResult.extend_def PredictionResult.truncate_def NumberedPrediction.fields_def)

lemma predictMultipleCycles_Inr:
  assumes "predictMultipleCycles today db u n = Inr (m, db')"
  obtains f where "predictNextPeriod today db u = Inr (f, db')"
    "predictions m = cyclesFrom f n" "multiCycleStats m = cycleStats f"
  using assms unfolding predictMultipleCycles_def by (auto split: sum.splits)

text \<open>
  C4. Every confidence score the service produces lies in \<open>[0.40, 0.95]\<close>: that of the
  single-cycle forecast, on the statistical path (clamped) and on the default path
  (\<open>0.40 + 0.1 \<times> records\<close> with fewer than three records), and that of every cycle of a
  multi-cycle forecast (the first one decayed by \<open>0.95 ^ i\<close> and floored at 0.40).
\<close>

theorem C4_confidence_in_range:
  "(predictNextPeriod today db u = Inr (p, db') \<longrightarrow>
      0.40 \<le> confidenceScore p \<and> confidenceScore p \<le> 0.95) \<and>
   (predictMultipleCycles today db u n = Inr (m, db'') \<longrightarrow>
      (\<forall>q \<in> set (predictions m). 0.40 \<le> confidenceScore q \<and> confidenceScore q \<le> 0.95))"
proof (rule conjI)
  show "predictNextPeriod today db u = Inr (p, db') \<longrightarrow>
      0.40 \<le> confidenceScore p \<and> confidenceScore p \<le> 0.95"
    using predictNextPeriod_confidence_bounds by blast
next
  show "predictMultipleCycles today db u n = Inr (m, db'') \<longrightarrow>
      (\<forall>q \<in> set (predictions m). 0.40 \<le> confidenceScore q \<and> confidenceScore q \<le> 0.95)"
  proof (rule impI, rule ballI)
    fix q
    assume m: "predictMultipleCycles today db u n = Inr (m, db'')"
      and q: "q \<in> set (predictions m)"
    from m obtain f where f: "predictNextPeriod today db u = Inr (f, db'')"
      and pm: "predictions m = cyclesFrom f n"
      by (rule predictMultipleCycles_Inr)
    have b: "0.40 \<le> confidenceScore f" "confidenceScore f \<le> 0.95"
      using predictNextPeriod_confidence_bounds[OF f] by blast+
    from q pm have "q \<in> set (cyclesFrom f n)" by simp
    then show "0.40 \<le> confidenceScore q \<and> confidenceScore q \<le> 0.95"
      by (rule cyclesFrom_confidence[OF b])
  qed
qed

theorem C4_confidence_in_range_witness:
  "predictNextPeriod 20010 db1 ''u1'' = Inr (forecast1, db1) \<and>
   0.40 \<le> confidenceScore forecast1 \<and> confidenceScore forecast1 \<le> 0.95 \<and>
   map_sum id fst (predictNextPeriod 20010 db3 ''u1'') = Inr forecast3 \<and>
   0.40 \<le> confidenceScore forecast3 \<and> confidenceScore forecast3 \<le> 0.95 \<and>
   map_sum id (predictions \<circ> fst) (predictMultipleCycles 20010 db3 ''u1'' 3)
     = Inr (cyclesFrom forecast3 3) \<and>
   cycleAfter forecast3 20056 2 \<in> set (cyclesFrom forecast3 3) \<and>
   0.40 \<le> confidenceScore (cycleAfter forecast3 20056 2) \<and>
   confidenceScore (cycleAfter forecast3 20056 2) \<le> 0.95"
proof -
  obtain d where e1: "predictNextPeriod 20010 db3 ''u1'' = Inr (forecast3, d)"
    using predictNextPeriod_db3 by blast
  define m where "m = \<lparr> predictions = cyclesFrom forecast3 3,
    multiCycleStats = cycleStats forecast3 \<rparr>"
  have e2: "predictMultipleCycles 20010 db3 ''u1'' 3 = Inr (m, d)"
    unfolding predictMultipleCycles_def e1 m_def by simp
  have "predictedStartDate (cycleAfter forecast3 20028 1) = 20056"
    by (simp add: cycleAfter_start forecast3_def)
  moreover have "predictedStartDate forecast3 = 20028" by (simp add: forecast3_def)
  ultimately have mem: "cycleAfter forecast3 20056 2 \<in> set (cyclesFrom forecast3 3)"
    unfolding cyclesFrom_def by (simp add: numeral_2_eq_2 Let_def)
  from C4_confidence_in_range[of 20010 db1 "''u1''" forecast1 db1] predictNextPeriod_db1
  have b1: "0.40 \<le> confidenceScore forecast1 \<and> confidenceScore forecast1 \<le> 0.95"
    by blast
  from C4_confidence_in_range[of 20010 db3 "''u1''" forecast3 d 3 m d] e1 e2
  have "0.40 \<le> confidenceScore forecast3 \<and> confidenceScore forecast3 \<le> 0.95"
    and "\<forall>q \<in> set (predictions m). 0.40 \<le> confidenceScore q \<and> confidenceScore q \<le> 0.95"
    by blast+
  with mem e1 e2 b1 predictNextPeriod_db1 show ?thesis by (simp add: m_def)
qed

text \<open>
  C6. The weighted mean of the filtered, newest-first cycle lengths follows the three
  tiers: the plain mean for at most three samples; for four to six samples the mean of
  the three most recent times 0.7 plus the mean of the remaining ones times 0.3; for
  seven or more the mean of the three most recent times 0.5, plus the mean of the next
  three times 0.3, plus the mean of the remaining ones times 0.2.
\<close>

theorem C6_weighted_mean_tiers:
  "calculateWeightedCycleLength periods =
     (let xs = calculateCycleLengths periods; n = length xs
      in if n \<le> 3 then mean xs
         else if n \<le> 6 then mean (take 3 xs) * 0.7 + mean (drop 3 xs) * 0.3
         else mean (take 3 xs) * 0.5 + mean (take 3 (drop 3 xs)) * 0.3
                + mean (drop 6 xs) * 0.2)"
  unfolding calculateWeightedCycleLength_def Let_def weighted_tiers average_mean ..

theorem C6_weighted_mean_tiers_witness:
  "calculateCycleLengths (historyOf ''u1'' 20000 5 [28, 28]) = [28, 28] \<and>
   calculateWeightedCycleLength (historyOf ''u1'' 20000 5 [28, 28]) = mean [28, 28] \<and>
   calculateCycleLengths (historyOf ''u1'' 20000 5 [22, 22, 22, 34, 30]) = [22, 22, 22, 34, 30] \<and>
   calculateWeightedCycleLength (historyOf ''u1'' 20000 5 [22, 22, 22, 34, 30])
     = mean [22, 22, 22] * 0.7 + mean [34, 30] * 0.3 \<and>
   calculateWeightedCycleLength (historyOf ''u1'' 20000 5 [22, 22, 22, 34, 30]) = 25 \<and>
   calculateCycleLengths (historyOf ''u1'' 20000 5 [28, 27, 27, 29, 28, 26, 28, 29])
     = [28, 27, 27, 29, 28, 26, 28, 29] \<and>
   calculateWeightedCycleLength (historyOf ''u1'' 20000 5 [28, 27, 27, 29, 28, 26, 28, 29])
     = mean [28, 27, 27] * 0.5 + mean [29, 28, 26] * 0.3 + mean [28, 29] * 0.2"
proof -
  have c2: "calculateCycleLengths (historyOf ''u1'' 20000 5 [28, 28]) = [28, 28]"
    by (simp add: calculateCycleLengths_Cons2 recordOf_def del: calculateCycleLengths.simps(1))
  have c5: "calculateCycleLengths (historyOf ''u1'' 20000 5 [22, 22, 22, 34, 30])
      = [22, 22, 22, 34, 30]"
    by (simp add: calculateCycleLengths_Cons2 recordOf_def del: calculateCycleLengths.simps(1))
  have c8: "calculateCycleLengths (historyOf ''u1'' 20000 5 [28, 27, 27, 29, 28, 26, 28, 29])
      = [28, 27, 27, 29, 28, 26, 28, 29]"
    by (simp add: calculateCycleLengths_Cons2 recordOf_def del: calculateCycleLengths.simps(1))
  have w2: "calculateWeightedCycleLength (historyOf ''u1'' 20000 5 [28, 28]) = mean [28, 28]"
    using C6_weighted_mean_tiers[of "historyOf ''u1'' 20000 5 [28, 28]"]
    unfolding c2 Let_def by simp
  have w5: "calculateWeightedCycleLength (historyOf ''u1'' 20000 5 [22, 22, 22, 34, 30])
     = mean [22, 22, 22] * 0.7 + mean [34, 30] * 0.3"
    using C6_weighted_mean_tiers[of "historyOf ''u1'' 20000 5 [22, 22, 22, 34, 30]"]
    unfolding c5 Let_def by simp
  have w8: "calculateWeightedCycleLength (historyOf ''u1'' 20000 5 [28, 27, 27, 29, 28, 26, 28, 29])
     = mean [28, 27, 27] * 0.5 + mean [29, 28, 26] * 0.3 + mean [28, 29] * 0.2"
    using C6_weighted_mean_tiers[of "historyOf ''u1'' 20000 5 [28, 27, 27, 29, 28, 26, 28, 29]"]
    unfolding c8 Let_def by simp
  have "mean [22, 22, 22] * 0.7 + mean [34, 30] * 0.3 = (25 :: real)"
    by (simp add: mean_def)
  with c2 c5 c8 w2 w5 w8 show ?thesis by presburger
qed

subsection \<open>Sample count\<close>

lemma predictNextPeriod_tracked:
  assumes "Period_findAll db u = Inr periods" "predictNextPeriod today db u = Inr (p, db')"
  shows "cyclesTracked (cycleStats p) =
     (if 3 \<le> length periods then length (calculateCycleLengths periods) else length periods)"
  using assms(2)
proof (cases rule: predictNextPeriod_cases)
  case (1 ps)
  with assms(1) show ?thesis by (simp add: useDefaultPrediction_tracked)
next
  case (2 ps)
  with assms(1) show ?thesis
    by (simp add: statisticalPrediction_stats calculateCycleStats_def Let_def)
qed

text \<open>
  C3 (amended). On the statistical path (three or more end-dated records fetched) the
  sample count \<open>cyclesTracked\<close> is the number of interval samples that passed the
  \<open>[21, 45]\<close> filter, which is less than the number of records. On the default path
  (fewer than three records) it is the number of fetched records.
\<close>

theorem C3_cycles_tracked:
  assumes "Period_findAll db u = Inr periods" "predictNextPeriod today db u = Inr (p, db')"
  shows "cyclesTracked (cycleStats p) =
           (if 3 \<le> length periods then length (filter validSample (intervalSamples periods))
            else length periods) \<and>
         (if 3 \<le> length periods then cyclesTracked (cycleStats p) < length periods
          else cyclesTracked (cycleStats p) = length periods)"
proof -
  have "length (calculateCycleLengths periods) < length periods" if "3 \<le> length periods"
    using calculateCycleLengths_length[of periods] that by linarith
  then show ?thesis
    using predictNextPeriod_tracked[OF assms]
    by (simp add: calculateCycleLengths_filter)
qed

text \<open>
  C3 as stated fails on the default path: with a single record there is no interval
  sample, yet \<open>cyclesTracked\<close> is 1, the record count.
\<close>

theorem C3_counterexample:
  "map_sum id (cyclesTracked \<circ> cycleStats \<circ> fst) (predictNextPeriod 20010 db1 ''u1'') = Inr 1 \<and>
   map_sum id (length \<circ> filter validSample \<circ> intervalSamples) (Period_findAll db1 ''u1'') = Inr 0"
  unfolding predictNextPeriod_db1 findAll_db1
  by (simp add: forecast1_def intervalSamples_def)

theorem C3_cycles_tracked_witness:
  "Period_findAll db3 ''u1'' = Inr (historyOf ''u1'' 20000 5 [28, 28]) \<and>
   map_sum id fst (predictNextPeriod 20010 db3 ''u1'') = Inr forecast3 \<and>
   cyclesTracked (cycleStats forecast3) = 2 \<and>
   length (filter validSample (intervalSamples (historyOf ''u1'' 20000 5 [28, 28]))) = 2"
proof -
  obtain d where e: "predictNextPeriod 20010 db3 ''u1'' = Inr (forecast3, d)"
    using predictNextPeriod_db3 by blast
  have "length (historyOf ''u1'' 20000 5 [28, 28]) = 3" by simp
  with C3_cycles_tracked[OF findAll_db3 e] e findAll_db3 show ?thesis
    by (simp add: forecast3_def del: historyOf.simps)
qed

subsection \<open>The confidence formula\<close>

lemma baseConfidence_regularity:
  "baseConfidence sd =
     (case classifyRegularity sd of
        very_regular \<Rightarrow> 0.92 | regular \<Rightarrow> 0.82 | somewhat_irregular \<Rightarrow> 0.67
      | irregular \<Rightarrow> 0.50)"
  unfolding baseConfidence_def classifyRegularity_def by simp

text \<open>
  C5 (amended). On the statistical path the confidence score is
  \<open>clamp (base + boost + adjustment) 0.40 0.95\<close>, where the data boost is
  \<open>min (record_count / 12) 1 \<times> 0.08\<close> with \<open>record_count\<close> the number of fetched
  end-dated records (not the number of valid interval samples), the base is taken from
  the regularity tier of the standard deviation, and the adjustment is 0 when the
  unweighted mean of the valid interval samples lies in \<open>[26, 32]\<close> and \<open>- 0.05\<close>
  otherwise.
\<close>

theorem C5_confidence_formula:
  assumes "Period_findAll db u = Inr periods" "3 \<le> length periods"
      and "predictNextPeriod today db u = Inr (p, db')"
  shows "(let stats = cycleStats p;
              base = (case regularity stats of
                        very_regular \<Rightarrow> 0.92 | regular \<Rightarrow> 0.82
                      | somewhat_irregular \<Rightarrow> 0.67 | irregular \<Rightarrow> 0.50);
              boost = min (of_nat (length periods) / 12) 1 * 0.08;
              adjustment = (if 26 \<le> avgCycleLength stats \<and> avgCycleLength stats \<le> 32
                            then 0 else - 0.05)
          in confidenceScore p = max 0.40 (min 0.95 (base + boost + adjustment)) \<and>
             regularity stats = classifyRegularity (standardDeviation stats) \<and>
             standardDeviation stats = standardDeviation_of (calculateCycleLengths periods) \<and>
             avgCycleLength stats = mean (filter validSample (intervalSamples periods)))"
  using assms(3)
proof (cases rule: predictNextPeriod_cases)
  case (1 ps)
  with assms(1,2) show ?thesis by simp
next
  case (2 ps)
  with assms(1) have sp: "statisticalPrediction periods = Inr p" by simp
  have stats: "cycleStats p = calculateCycleStats periods"
    using sp by (rule statisticalPrediction_stats)
  show ?thesis
    unfolding Let_def statisticalPrediction_confidence[OF sp] stats
    by (simp add: calculateCycleStats_def calculateConfidence_def unclampedConfidence_def
        baseConfidence_regularity Let_def average_mean calculateCycleLengths_filter)
qed

text \<open>
  C5 as stated fails: three records 28 days apart give two valid samples; the claimed
  boost \<open>2 / 12 \<times> 0.08\<close> would make the score \<open>14 / 15\<close>, the service returns 0.94.
\<close>

theorem C5_counterexample:
  "map_sum id fst (predictNextPeriod 20010 db3 ''u1'') = Inr forecast3 \<and>
   map_sum id (length \<circ> filter validSample \<circ> intervalSamples) (Period_findAll db3 ''u1'') = Inr 2 \<and>
   confidenceScore forecast3 = 0.94 \<and>
   max 0.40 (min 0.95 (0.92 + min (2 / 12) 1 * 0.08 + 0)) = (14 / 15 :: real) \<and>
   confidenceScore forecast3 \<noteq> max 0.40 (min 0.95 (0.92 + min (2 / 12) 1 * 0.08 + 0))"
proof -
  obtain d where e: "predictNextPeriod 20010 db3 ''u1'' = Inr (forecast3, d)"
    using predictNextPeriod_db3 by blast
  have "filter validSample (intervalSamples (historyOf ''u1'' 20000 5 [28, 28])) = [28, 28]"
    by (simp add: intervalSamples_def validSample_def recordOf_def)
  then show ?thesis
    unfolding e findAll_db3 by (simp add: forecast3_def del: historyOf.simps)
qed

theorem C5_confidence_formula_witness:
  "Period_findAll db3 ''u1'' = Inr (historyOf ''u1'' 20000 5 [28, 28]) \<and>
   3 \<le> length (historyOf ''u1'' 20000 5 [28, 28]) \<and>
   map_sum id fst (predictNextPeriod 20010 db3 ''u1'') = Inr forecast3 \<and>
   confidenceScore forecast3 = max 0.40 (min 0.95 (0.92 + min (3 / 12) 1 * 0.08 + 0))"
proof -
  obtain d where e: "predictNextPeriod 20010 db3 ''u1'' = Inr (forecast3, d)"
    using predictNextPeriod_db3 by blast
  have l: "3 \<le> length (historyOf ''u1'' 20000 5 [28, 28])" by simp
  from C5_confidence_formula[OF findAll_db3 l e] e findAll_db3 l show ?thesis
    by (simp add: forecast3_def Let_def del: historyOf.simps)
qed

subsection \<open>Histories without a valid interval\<close>

lemma no_valid_interval:
  assumes "\<forall>i. Suc i < length periods \<longrightarrow>
     \<not> validSample (of_int \<bar>start_date (periods ! i) - start_date (periods ! Suc i)\<bar>)"
  shows "calculateCycleLengths periods = []"
proof -
  have "\<not> validSample x" if "x \<in> set (intervalSamples periods)" for x
  proof -
    from that obtain i where i: "i < length (zip periods (tl periods))"
      and x: "x = (\<lambda>(newer, older). of_int \<bar>start_date newer - start_date older\<bar>)
                (zip periods (tl periods) ! i)"
      unfolding intervalSamples_def by (auto simp: in_set_conv_nth)
    from i have si: "Suc i < length periods" by simp
    then have "zip periods (tl periods) ! i = (periods ! i, periods ! Suc i)"
      by (simp add: nth_tl)
    with x assms si show ?thesis by simp
  qed
  then show ?thesis
    unfolding calculateCycleLengths_filter by (simp add: filter_empty_conv)
qed

text \<open>
  C10. When at least three end-dated records are fetched and no two consecutive start
  dates are between 21 and 45 days apart, the statistical path is taken and returns a
  forecast: the average of the empty list is 0, so the mean cycle length is 0, the
  standard deviation is 0, the regularity is \<open>very_regular\<close>, the sample count is 0,
  and the predicted start date is the start date of the most recent record plus
  \<open>round 0 = 0\<close> days.
\<close>

theorem C10_no_valid_interval_forecast:
  assumes "Period_findAll db u = Inr periods" "3 \<le> length periods"
      and "\<forall>i. Suc i < length periods \<longrightarrow>
             \<not> validSample (of_int \<bar>start_date (periods ! i) - start_date (periods ! Suc i)\<bar>)"
  shows "\<exists>p db'. predictNextPeriod today db u = Inr (p, db') \<and>
           statisticalPrediction periods = Inr p \<and>
           average [] = 0 \<and>
           avgCycleLength (cycleStats p) = 0 \<and>
           standardDeviation (cycleStats p) = 0 \<and>
           regularity (cycleStats p) = very_regular \<and>
           cyclesTracked (cycleStats p) = 0 \<and>
           predictedStartDate p = start_date (periods ! 0) + round (0 :: real) \<and>
           predictedStartDate p = start_date (periods ! 0)"
proof -
  from assms(2) obtain p0 rest where ps: "periods = p0 # rest" by (cases periods) auto
  have cl: "calculateCycleLengths (p0 # rest) = []"
    using no_valid_interval[OF assms(3)] unfolding ps .
  obtain p where sp: "statisticalPrediction periods = Inr p"
    unfolding ps statisticalPrediction_Cons by blast
  have stats: "cycleStats p = calculateCycleStats (p0 # rest)"
    using sp statisticalPrediction_stats ps by blast
  have start: "predictedStartDate p = start_date p0"
    using sp unfolding ps statisticalPrediction_Cons
    by (auto simp: calculateWeightedCycleLength_def weightedCycleLength_def slice_def cl
        Let_def)
  have "avgCycleLength (cycleStats p) = 0 \<and> standardDeviation (cycleStats p) = 0 \<and>
        regularity (cycleStats p) = very_regular \<and> cyclesTracked (cycleStats p) = 0"
    unfolding stats calculateCycleStats_def Let_def cl
    by (simp add: average_def standardDeviation_of_def classifyRegularity_def)
  moreover have "average [] = 0" by (simp add: average_def)
  ultimately show ?thesis
    using predictNextPeriod_statistical[OF assms(1,2) sp, of today] sp start ps by simp
qed

lemma findAll_db60: "Period_findAll db60 ''u1'' = Inr (historyOf ''u1'' 20000 5 [60, 60])"
  by (simp add: Period_findAll_def databaseOf_def recordOf_def db60_def)

theorem C10_no_valid_interval_forecast_witness:
  "Period_findAll db60 ''u1'' = Inr (historyOf ''u1'' 20000 5 [60, 60]) \<and>
   3 \<le> length (historyOf ''u1'' 20000 5 [60, 60]) \<and>
   intervalSamples (historyOf ''u1'' 20000 5 [60, 60]) = [60, 60] \<and>
   \<not> validSample 60 \<and>
   (\<exists>p db'. predictNextPeriod 20010 db60 ''u1'' = Inr (p, db') \<and>
      regularity (cycleStats p) = very_regular \<and> cyclesTracked (cycleStats p) = 0 \<and>
      predictedStartDate p = 20000)"
proof -
  have l: "3 \<le> length (historyOf ''u1'' 20000 5 [60, 60])" by simp
  have iv: "intervalSamples (historyOf ''u1'' 20000 5 [60, 60]) = [60, 60]"
    by (simp add: intervalSamples_def recordOf_def)
  have h: "\<forall>i. Suc i < length (historyOf ''u1'' 20000 5 [60, 60]) \<longrightarrow>
     \<not> validSample (of_int \<bar>start_date (historyOf ''u1'' 20000 5 [60, 60] ! i)
          - start_date (historyOf ''u1'' 20000 5 [60, 60] ! Suc i)\<bar>)"
    by (simp add: validSample_def recordOf_def less_Suc_eq nth_Cons' all_conj_distrib)
  have "start_date (historyOf ''u1'' 20000 5 [60, 60] ! 0) = 20000"
    by (simp add: recordOf_def)
  with C10_no_valid_interval_forecast[OF findAll_db60 l h, of 20010] findAll_db60 l iv
  show ?thesis
    by (auto simp add: validSample_def simp del: historyOf.simps)
qed

subsection \<open>Average record duration\<close>

lemma findAll_end_dates:
  assumes "Period_findAll db u = Inr periods"
  shows "\<forall>p \<in> set periods. end_date p \<noteq> None"
proof -
  from assms have "set periods \<subseteq> set (filter (\<lambda>p. user_id p = u \<and> end_date p \<noteq> None)
      (periods_table db))"
    unfolding Period_findAll_def
    by (auto split: if_splits dest!: in_set_takeD)
  then show ?thesis by auto
qed

lemma periodLengths_of_length:
  "\<forall>p \<in> set periods. end_date p \<noteq> None \<Longrightarrow>
     length (periodLengths_of periods) = length periods"
  unfolding periodLengths_of_def
  by (induction periods) (auto simp: List.map_filter_simps split: option.splits)

lemma calculateAveragePeriodLength_plausible:
  "calculateAveragePeriodLength periods =
     (let plausible = filter plausibleDuration (periodLengths_of periods)
      in if plausible = [] then 5 else mean plausible)"
proof -
  have "(\<lambda>l. 2 \<le> l \<and> l \<le> 10) = plausibleDuration"
    by (simp add: fun_eq_iff plausibleDuration_def)
  then show ?thesis
    unfolding calculateAveragePeriodLength_def Let_def by (simp add: average_mean)
qed

text \<open>
  C8 (amended). On the statistical path the average record duration reported in
  CycleStats is the mean of \<open>\<bar>end date - start date\<bar> + 1\<close> over all fetched records
  (each has an end date), without a restriction to plausible durations; the mean
  restricted to durations in \<open>[2, 10]\<close>, with the default 5 when no record qualifies, is
  the duration that places the predicted end date of the single-cycle forecast. On the
  default path CycleStats reports the stored average period length of the user, and 5
  when there is none.
\<close>

theorem C8_average_period_length:
  assumes "Period_findAll db u = Inr periods" "predictNextPeriod today db u = Inr (p, db')"
  shows "if 3 \<le> length periods then
           avgPeriodLength (cycleStats p) = mean (periodLengths_of periods) \<and>
           length (periodLengths_of periods) = length periods \<and>
           predictedEndDate p = predictedStartDate p
             + round (let plausible = filter plausibleDuration (periodLengths_of periods)
                      in if plausible = [] then 5 else mean plausible) - 1
         else
           avgPeriodLength (cycleStats p) =
             (case user_settings_table db u of
                None \<Rightarrow> 5
              | Some s \<Rightarrow> if avg_period_length s = 0 then 5 else of_int (avg_period_length s))"
  using assms(2)
proof (cases rule: predictNextPeriod_cases)
  case (1 ps)
  with assms(1) have "useDefaultPrediction today db u periods = Inr p" "length periods < 3"
    by simp_all
  then show ?thesis
    unfolding useDefaultPrediction_def UserSettings_findOne_def
    by (auto simp: Let_def split: if_splits option.splits)
next
  case (2 ps)
  with assms(1) have sp: "statisticalPrediction periods = Inr p" and l: "3 \<le> length periods"
    by simp_all
  from l obtain p0 rest where ps: "periods = p0 # rest" by (cases periods) auto
  have "avgPeriodLength (cycleStats p) = mean (periodLengths_of periods)"
    unfolding statisticalPrediction_stats[OF sp] calculateCycleStats_def Let_def
    by (simp add: average_mean)
  moreover have "length (periodLengths_of periods) = length periods"
    using findAll_end_dates[OF assms(1)] by (rule periodLengths_of_length)
  moreover have "predictedEndDate p = predictedStartDate p
             + round (let plausible = filter plausibleDuration (periodLengths_of periods)
                      in if plausible = [] then 5 else mean plausible) - 1"
    using sp unfolding ps statisticalPrediction_Cons calculateAveragePeriodLength_plausible
    by auto
  ultimately show ?thesis using l by simp
qed

text \<open>
  C8 as stated fails: three records of 15 days each have no plausible duration, so the
  claimed value is the default 5, but CycleStats reports 15.
\<close>

lemma findAll_dbLong: "Period_findAll dbLong ''u1'' = Inr (historyOf ''u1'' 20000 15 [28, 28])"
  by (simp add: Period_findAll_def databaseOf_def recordOf_def dbLong_def)

theorem C8_counterexample:
  "map_sum id (avgPeriodLength \<circ> cycleStats \<circ> fst) (predictNextPeriod 20010 dbLong ''u1'')
     = Inr 15 \<and>
   map_sum id (filter plausibleDuration \<circ> periodLengths_of) (Period_findAll dbLong ''u1'')
     = Inr []"
proof -
  have pl: "periodLengths_of (historyOf ''u1'' 20000 15 [28, 28]) = [15, 15, 15]"
    by (simp add: periodLengths_of_def List.map_filter_simps recordOf_def daysBetween_eq)
  obtain p where sp: "statisticalPrediction (historyOf ''u1'' 20000 15 [28, 28]) = Inr p"
    by (simp add: statisticalPrediction_Cons)
  have "avgPeriodLength (cycleStats p) = 15"
    unfolding statisticalPrediction_stats[OF sp] calculateCycleStats_def Let_def pl
    by (simp add: average_def)
  moreover have "3 \<le> length (historyOf ''u1'' 20000 15 [28, 28])" by simp
  ultimately show ?thesis
    unfolding findAll_dbLong
    by (simp add: predictNextPeriod_statistical[OF findAll_dbLong _ sp] pl plausibleDuration_def
        del: historyOf.simps)
qed

theorem C8_average_period_length_witness:
  "Period_findAll db3 ''u1'' = Inr (historyOf ''u1'' 20000 5 [28, 28]) \<and>
   map_sum id fst (predictNextPeriod 20010 db3 ''u1'') = Inr forecast3 \<and>
   periodLengths_of (historyOf ''u1'' 20000 5 [28, 28]) = [5, 5, 5] \<and>
   avgPeriodLength (cycleStats forecast3) = mean [5, 5, 5] \<and>
   predictedEndDate forecast3 = predictedStartDate forecast3 + round (mean [5, 5, 5]) - 1"
proof -
  obtain d where e: "predictNextPeriod 20010 db3 ''u1'' = Inr (forecast3, d)"
    using predictNextPeriod_db3 by blast
  have pl: "periodLengths_of (historyOf ''u1'' 20000 5 [28, 28]) = [5, 5, 5]"
    by (simp add: periodLengths_of_def List.map_filter_simps recordOf_def daysBetween_eq)
  have l: "3 \<le> length (historyOf ''u1'' 20000 5 [28, 28])" by simp
  from C8_average_period_length[OF findAll_db3 e] l
  have "avgPeriodLength (cycleStats forecast3) = mean [5, 5, 5] \<and>
        predictedEndDate forecast3 = predictedStartDate forecast3 + round (mean [5, 5, 5]) - 1"
    unfolding pl by (simp add: plausibleDuration_def Let_def del: historyOf.simps)
  with e findAll_db3 pl show ?thesis by simp
qed

subsection \<open>Scenario B\<close>

lemma standardDeviation_scenarioB:
  "standardDeviation_of [28, 27, 27, 29, 28, 26, 28, 29] = sqrt (15 / 16)"
  by (simp add: standardDeviation_of_def average_def power2_eq_square)

lemma sqrt_15_16_bounds: "0.96 \<le> sqrt (15 / 16 :: real) \<and> sqrt (15 / 16 :: real) \<le> 0.98"
proof
  show "0.96 \<le> sqrt (15 / 16 :: real)"
    by (rule real_le_rsqrt) (simp add: power2_eq_square)
  show "sqrt (15 / 16 :: real) \<le> 0.98"
    by (rule real_le_lsqrt) (simp_all add: power2_eq_square)
qed

text \<open>
  C7 (amended). For records whose filtered newest-first interval sequence is
  \<open>[28, 27, 27, 29, 28, 26, 28, 29]\<close> the weighted mean is \<open>83 / 3\<close> (27.667 to three
  places), the standard deviation is 0.97 within 0.01, the regularity is
  \<open>very_regular\<close>, and the confidence is \<open>0.92 + min (records / 12) 1 \<times> 0.08\<close> before
  clamping, which is 0.98 for the nine records that produce eight samples and never
  less, and exactly 0.95 after clamping.
\<close>

theorem C7_scenario_B:
  assumes "calculateCycleLengths periods = [28, 27, 27, 29, 28, 26, 28, 29]"
  shows "(let stats = calculateCycleStats periods;
              unclamped = unclampedConfidence (standardDeviation stats) (length periods)
                            (avgCycleLength stats)
          in calculateWeightedCycleLength periods = 83 / 3 \<and>
             \<bar>standardDeviation stats - 0.97\<bar> \<le> 0.01 \<and>
             regularity stats = very_regular \<and>
             unclamped = 0.92 + min (of_nat (length periods) / 12) 1 * 0.08 \<and>
             0.98 \<le> unclamped \<and>
             (if length periods = 9 then unclamped = 0.98 else 0.98 < unclamped) \<and>
             map_sum id confidenceScore (statisticalPrediction periods) = Inr 0.95)"
proof -
  note b = sqrt_15_16_bounds
  have len: "9 \<le> length periods"
    using calculateCycleLengths_length[of periods] unfolding assms by simp
  then have boost: "0.75 \<le> min (real (length periods) / 12) 1" by simp
  have boost9: "0.75 < min (real (length periods) / 12) 1" if "length periods \<noteq> 9"
    using len that by simp
  from len obtain p0 rest where ps: "periods = p0 # rest" by (cases periods) auto
  have w: "calculateWeightedCycleLength periods = 83 / 3"
    unfolding calculateWeightedCycleLength_def assms weighted_tiers
    by (simp add: average_def)
  have sd: "standardDeviation (calculateCycleStats periods) = sqrt (15 / 16)"
    unfolding calculateCycleStats_def Let_def assms by (simp add: standardDeviation_scenarioB)
  have avg: "avgCycleLength (calculateCycleStats periods) = 111 / 4"
    unfolding calculateCycleStats_def Let_def assms by (simp add: average_def)
  have reg: "regularity (calculateCycleStats periods) = very_regular"
    unfolding calculateCycleStats_def Let_def assms standardDeviation_scenarioB
    using b by (simp add: classifyRegularity_def)
  have base: "baseConfidence (sqrt (15 / 16)) = 0.92"
    using b by (simp add: baseConfidence_def)
  have un: "unclampedConfidence (sqrt (15 / 16)) (length periods) (111 / 4)
      = 0.92 + min (of_nat (length periods) / 12) 1 * 0.08"
    unfolding unclampedConfidence_def Let_def base by simp
  have conf: "calculateConfidence (sqrt (15 / 16)) (length periods) (111 / 4) = 0.95"
    unfolding calculateConfidence_def Let_def un using boost by simp
  have "confidenceScore p = 0.95" if "statisticalPrediction periods = Inr p" for p
    using statisticalPrediction_confidence[OF that]
    unfolding statisticalPrediction_stats[OF that] sd avg conf .
  then have sp: "map_sum id confidenceScore (statisticalPrediction periods) = Inr 0.95"
    unfolding ps statisticalPrediction_Cons by simp
  have ab: "\<bar>sqrt (15 / 16 :: real) - 0.97\<bar> \<le> 0.01" using b by linarith
  have a1: "0.98 \<le> 0.92 + t * 0.08" if "0.75 \<le> t" for t :: real
    using that by simp
  have a2: "0.98 < 0.92 + t * 0.08" if "0.75 < t" for t :: real
    using that by simp
  have u1: "0.98 \<le> 0.92 + min (real (length periods) / 12) 1 * 0.08"
    using boost by (rule a1)
  have u2: "if length periods = 9
            then 0.92 + min (real (length periods) / 12) 1 * 0.08 = 0.98
            else 0.98 < 0.92 + min (real (length periods) / 12) 1 * 0.08"
  proof (cases "length periods = 9")
    case True
    then show ?thesis by simp
  next
    case False
    then have "0.98 < 0.92 + min (real (length periods) / 12) 1 * 0.08"
      by (intro a2 boost9)
    with False show ?thesis by (simp only: if_False)
  qed
  show ?thesis
    unfolding Let_def sd avg un using w ab reg u1 u2 sp by blast
qed

text \<open>C7 as stated fails: the weighted mean of scenario B is not 27.625.\<close>

lemma calculateCycleLengths_scenarioB:
  "calculateCycleLengths scenarioB = [28, 27, 27, 29, 28, 26, 28, 29]"
  by (simp add: scenarioB_def calculateCycleLengths_Cons2 recordOf_def
      del: calculateCycleLengths.simps(1))

theorem C7_counterexample:
  "calculateCycleLengths scenarioB = [28, 27, 27, 29, 28, 26, 28, 29] \<and>
   calculateWeightedCycleLength scenarioB \<noteq> 27.625"
  unfolding calculateWeightedCycleLength_def calculateCycleLengths_scenarioB weighted_tiers
  by (simp add: average_def)

theorem C7_scenario_B_witness:
  "calculateCycleLengths scenarioB = [28, 27, 27, 29, 28, 26, 28, 29] \<and>
   length scenarioB = 9 \<and>
   calculateWeightedCycleLength scenarioB = 83 / 3 \<and>
   regularity (calculateCycleStats scenarioB) = very_regular \<and>
   unclampedConfidence (standardDeviation (calculateCycleStats scenarioB)) 9
     (avgCycleLength (calculateCycleStats scenarioB)) = 0.98 \<and>
   map_sum id confidenceScore (statisticalPrediction scenarioB) = Inr 0.95"
proof -
  have l: "length scenarioB = 9" by (simp add: scenarioB_def)
  from C7_scenario_B[OF calculateCycleLengths_scenarioB] l calculateCycleLengths_scenarioB
  show ?thesis by (simp add: Let_def)
qed

subsection \<open>The multi-cycle forecast\<close>

lemma average_nonneg: "(\<And>x. x \<in> set xs \<Longrightarrow> 0 \<le> x) \<Longrightarrow> 0 \<le> average xs"
  unfolding average_def by (simp add: sum_list_nonneg)

text \<open>
  What \<^verbatim>\<open>addDays\<close> does with the mean cycle length of the first forecast, which
  line 584 passes to it as it is.
\<close>

lemma predictNextPeriod_step:
  assumes "predictNextPeriod today db u = Inr (f, db')"
  shows "addDays s (avgCycleLength (cycleStats f)) = s + \<lfloor>avgCycleLength (cycleStats f)\<rfloor>"
  using assms
proof (cases rule: predictNextPeriod_cases)
  case (1 periods)
  then obtain k :: int where "avgCycleLength (cycleStats f) = of_int k"
    unfolding useDefaultPrediction_def by (auto simp: Let_def split: sum.splits)
  then show ?thesis by (simp add: addDays_int)
next
  case (2 periods)
  have "0 \<le> average (calculateCycleLengths periods)"
    using calculateCycleLengths_range[of _ periods] by (intro average_nonneg) force
  then have "0 \<le> avgCycleLength (cycleStats f)"
    unfolding statisticalPrediction_stats[OF 2(3)] calculateCycleStats_def Let_def by simp
  then show ?thesis by (rule addDays_nonneg)
qed

lemma cyclesLoop_length: "length (cyclesLoop f s i n) = n"
  by (induction n arbitrary: s i) (simp_all add: Let_def)

lemma cyclesLoop_start:
  assumes "\<And>s. addDays s (avgCycleLength (cycleStats f)) = s + step"
  shows "j < n \<Longrightarrow> predictedStartDate (cyclesLoop f s i n ! j) = s + (int j + 1) * step"
proof (induction n arbitrary: s i j)
  case 0
  then show ?case by simp
next
  case (Suc n)
  have next_start: "predictedStartDate (cycleAfter f s i) = s + step"
    unfolding cycleAfter_start by (rule assms)
  show ?case
  proof (cases j)
    case 0
    then show ?thesis by (simp add: Let_def next_start)
  next
    case (Suc j')
    with Suc.prems have "j' < n" by simp
    then have "predictedStartDate (cyclesLoop f (s + step) (i + 1) n ! j')
        = (s + step) + (int j' + 1) * step"
      by (rule Suc.IH)
    also have "\<dots> = s + (int (Suc j') + 1) * step"
      by (simp add: distrib_right)
    finally show ?thesis
      unfolding Suc by (simp only: cyclesLoop.simps Let_def next_start nth_Cons_Suc)
  qed
qed

lemma cyclesFrom_length: "length (cyclesFrom f n) = 1 + nat (n - 1)"
  unfolding cyclesFrom_def by (simp add: cyclesLoop_length)

lemma cyclesFrom_start:
  assumes "\<And>s. addDays s (avgCycleLength (cycleStats f)) = s + step"
      and "k < length (cyclesFrom f n)"
  shows "predictedStartDate (cyclesFrom f n ! k) = predictedStartDate f + int k * step"
proof (cases k)
  case 0
  then show ?thesis
    unfolding cyclesFrom_def
    by (simp add: PredictionResult.extend_def PredictionResult.truncate_def)
next
  case (Suc j)
  with assms(2) have "j < nat (n - 1)" by (simp add: cyclesFrom_length)
  then have "predictedStartDate (cyclesLoop f (predictedStartDate f) 1 (nat (n - 1)) ! j)
      = predictedStartDate f + (int j + 1) * step"
    by (rule cyclesLoop_start[OF assms(1)])
  moreover have "int (Suc j) = int j + 1" by simp
  ultimately show ?thesis
    unfolding cyclesFrom_def Suc by (simp only: nth_Cons_Suc)
qed

text \<open>
  C2 (amended). In the multi-cycle forecast, for every cycle after the first the
  predicted start date equals the previous cycle's predicted start date plus a
  per-cycle length in whole days. That length is a constant derived once from the mean
  cycle length reported in the CycleStats of cycle 1 and not recomputed: it differs from
  that mean by less than a day, and it is the rounded mean whenever the mean is a whole
  number of days. On the statistical path the mean in question is the unweighted mean
  of the valid interval samples, not the weighted mean; on the default path it is the
  stored cycle length of the user, 28 when there is none.
\<close>

theorem C2_subsequent_cycle_start:
  assumes "Period_findAll db u = Inr periods"
      and "predictMultipleCycles today db u n = Inr (m, db')"
  shows "(\<exists>step :: int.
            \<bar>of_int step - avgCycleLength (multiCycleStats m)\<bar> < 1 \<and>
            (avgCycleLength (multiCycleStats m) \<in> \<int> \<longrightarrow>
               step = round (avgCycleLength (multiCycleStats m))) \<and>
            (\<forall>k. 1 \<le> k \<and> k < length (predictions m) \<longrightarrow>
               predictedStartDate (predictions m ! k) =
                 predictedStartDate (predictions m ! (k - 1)) + step)) \<and>
         map_sum id (cycleStats \<circ> fst) (predictNextPeriod today db u) = Inr (multiCycleStats m) \<and>
         (if 3 \<le> length periods
          then avgCycleLength (multiCycleStats m) = mean (filter validSample (intervalSamples periods))
          else avgCycleLength (multiCycleStats m) =
             (case user_settings_table db u of
                None \<Rightarrow> 28
              | Some s \<Rightarrow> if avg_cycle_length s = 0 then 28 else of_int (avg_cycle_length s)))"
proof -
  from assms(2) obtain f where f: "predictNextPeriod today db u = Inr (f, db')"
      and pm: "predictions m = cyclesFrom f n" and st: "multiCycleStats m = cycleStats f"
    by (rule predictMultipleCycles_Inr)
  define a where "a = avgCycleLength (cycleStats f)"
  define step where "step = \<lfloor>a\<rfloor>"
  have add: "addDays s (avgCycleLength (cycleStats f)) = s + step" for s
    unfolding step_def a_def using f by (rule predictNextPeriod_step)
  have near: "\<bar>of_int step - a\<bar> < 1" unfolding step_def by linarith
  have whole: "step = round a" if "a \<in> \<int>"
  proof -
    from that obtain z :: int where "a = of_int z" by (auto elim: Ints_cases)
    then show ?thesis unfolding step_def by simp
  qed
  have steps: "predictedStartDate (predictions m ! k) =
      predictedStartDate (predictions m ! (k - 1)) + step"
    if "1 \<le> k \<and> k < length (predictions m)" for k
  proof -
    have k: "k < length (cyclesFrom f n)" using that pm by simp
    then have k1: "k - 1 < length (cyclesFrom f n)" by linarith
    have "int k = int (k - 1) + 1" using that by simp
    then have "int k * step = int (k - 1) * step + step"
      by (simp only: distrib_right mult_1)
    then show ?thesis
      unfolding pm cyclesFrom_start[OF add k] cyclesFrom_start[OF add k1] by linarith
  qed
  have "\<exists>step :: int.
            \<bar>of_int step - avgCycleLength (multiCycleStats m)\<bar> < 1 \<and>
            (avgCycleLength (multiCycleStats m) \<in> \<int> \<longrightarrow>
               step = round (avgCycleLength (multiCycleStats m))) \<and>
            (\<forall>k. 1 \<le> k \<and> k < length (predictions m) \<longrightarrow>
               predictedStartDate (predictions m ! k) =
                 predictedStartDate (predictions m ! (k - 1)) + step)"
    unfolding st a_def[symmetric] using near whole steps by blast
  moreover have "map_sum id (cycleStats \<circ> fst) (predictNextPeriod today db u)
      = Inr (multiCycleStats m)"
    unfolding f st by simp
  moreover have "if 3 \<le> length periods
          then avgCycleLength (multiCycleStats m) = mean (filter validSample (intervalSamples periods))
          else avgCycleLength (multiCycleStats m) =
             (case user_settings_table db u of
                None \<Rightarrow> 28
              | Some s \<Rightarrow> if avg_cycle_length s = 0 then 28 else of_int (avg_cycle_length s))"
    using f
  proof (cases rule: predictNextPeriod_cases)
    case (1 ps)
    with assms(1) have "useDefaultPrediction today db u periods = Inr f" "length periods < 3"
      by simp_all
    then show ?thesis
      unfolding st useDefaultPrediction_def UserSettings_findOne_def
      by (auto simp: Let_def split: if_splits option.splits)
  next
    case (2 ps)
    with assms(1) have "statisticalPrediction periods = Inr f" "3 \<le> length periods"
      by simp_all
    then show ?thesis
      unfolding st
      by (simp add: statisticalPrediction_stats calculateCycleStats_def Let_def average_mean
          calculateCycleLengths_filter)
  qed
  ultimately show ?thesis by blast
qed

text \<open>
  C2 as stated fails: for the intervals 22, 22, 22, 34 the weighted mean 25.6 rounds to
  26, but the second cycle starts 25 days after the first.
\<close>

lemma findAll_dbW: "Period_findAll dbW ''u1'' = Inr (historyOf ''u1'' 20000 5 [22, 22, 22, 34])"
  by (simp add: Period_findAll_def databaseOf_def recordOf_def dbW_def)

lemma calculateCycleLengths_dbW:
  "calculateCycleLengths (historyOf ''u1'' 20000 5 [22, 22, 22, 34]) = [22, 22, 22, 34]"
  by (simp add: calculateCycleLengths_Cons2 recordOf_def del: calculateCycleLengths.simps(1))

lemma weighted_dbW:
  "calculateWeightedCycleLength (historyOf ''u1'' 20000 5 [22, 22, 22, 34]) = 25.6"
  unfolding calculateWeightedCycleLength_def calculateCycleLengths_dbW weighted_tiers
  by (simp add: average_def)

lemma round_weighted_dbW:
  "round (calculateWeightedCycleLength (historyOf ''u1'' 20000 5 [22, 22, 22, 34])) = 26"
  unfolding weighted_dbW round_def by linarith

theorem C2_counterexample:
  "map_sum id (map predictedStartDate \<circ> predictions \<circ> fst)
     (predictMultipleCycles 20010 dbW ''u1'' 2) = Inr [20026, 20051] \<and>
   map_sum id (round \<circ> calculateWeightedCycleLength) (Period_findAll dbW ''u1'') = Inr 26 \<and>
   (20051 :: int) \<noteq> 20026 + 26"
proof -
  let ?h = "historyOf ''u1'' 20000 5 [22, 22, 22, 34]"
  have h: "?h = recordOf ''u1'' 20000 5 # historyOf ''u1'' (20000 - 22) 5 [22, 22, 34]"
    by simp
  obtain f where sp: "statisticalPrediction ?h = Inr f"
    unfolding h statisticalPrediction_Cons by blast
  have start: "predictedStartDate f = 20026"
    using sp round_weighted_dbW unfolding h statisticalPrediction_Cons
    by (auto simp: recordOf_def)
  have "avgCycleLength (cycleStats f) = 25"
    unfolding statisticalPrediction_stats[OF sp] calculateCycleStats_def Let_def
      calculateCycleLengths_dbW
    by (simp add: average_def)
  then have second: "predictedStartDate (cycleAfter f 20026 i) = 20051" for i
    unfolding cycleAfter_start by simp
  have l: "3 \<le> length ?h" by simp
  have "map predictedStartDate (cyclesFrom f 2) = [20026, 20051]"
    unfolding cyclesFrom_def
    by (simp add: start second Let_def PredictionResult.extend_def
        PredictionResult.truncate_def)
  then show ?thesis
    unfolding predictMultipleCycles_def findAll_dbW
    by (simp add: predictNextPeriod_statistical[OF findAll_dbW l sp] round_weighted_dbW
        del: historyOf.simps)
qed

theorem C2_subsequent_cycle_start_witness:
  "Period_findAll db3 ''u1'' = Inr (historyOf ''u1'' 20000 5 [28, 28]) \<and>
   map_sum id (map predictedStartDate \<circ> predictions \<circ> fst)
     (predictMultipleCycles 20010 db3 ''u1'' 3) = Inr [20028, 20056, 20084] \<and>
   map_sum id (avgCycleLength \<circ> multiCycleStats \<circ> fst)
     (predictMultipleCycles 20010 db3 ''u1'' 3) = Inr 28 \<and>
   mean (filter validSample (intervalSamples (historyOf ''u1'' 20000 5 [28, 28]))) = 28 \<and>
   (28 :: real) \<in> \<int> \<and>
   (20056 :: int) = 20028 + round (28 :: real) \<and>
   (20084 :: int) = 20056 + round (28 :: real)"
proof -
  obtain d where e: "predictNextPeriod 20010 db3 ''u1'' = Inr (forecast3, d)"
    using predictNextPeriod_db3 by blast
  define m where "m = \<lparr> predictions = cyclesFrom forecast3 3, multiCycleStats = cycleStats forecast3 \<rparr>"
  have em: "predictMultipleCycles 20010 db3 ''u1'' 3 = Inr (m, d)"
    unfolding predictMultipleCycles_def e m_def by simp
  have len: "length (predictions m) = 3" by (simp add: m_def cyclesFrom_length)
  have starts: "map predictedStartDate (predictions m) = [20028, 20056, 20084]"
    unfolding m_def cyclesFrom_def
    by (simp add: numeral_2_eq_2 Let_def cycleAfter_start forecast3_def
        PredictionResult.extend_def PredictionResult.truncate_def)
  have s0: "predictedStartDate (predictions m ! 0) = 20028"
    and s1: "predictedStartDate (predictions m ! 1) = 20056"
    and s2: "predictedStartDate (predictions m ! 2) = 20084"
    using starts len by (simp_all flip: nth_map[of _ "predictions m" predictedStartDate])
  have iv: "mean (filter validSample (intervalSamples (historyOf ''u1'' 20000 5 [28, 28]))) = 28"
    by (simp add: intervalSamples_def validSample_def recordOf_def mean_def)
  have avg: "avgCycleLength (multiCycleStats m) = 28" by (simp add: m_def forecast3_def)
  have int28: "(28 :: real) \<in> \<int>" by simp
  from C2_subsequent_cycle_start[OF findAll_db3 em]
  obtain step :: int where w: "avgCycleLength (multiCycleStats m) \<in> \<int> \<longrightarrow>
        step = round (avgCycleLength (multiCycleStats m))"
    and st: "\<forall>k. 1 \<le> k \<and> k < length (predictions m) \<longrightarrow>
        predictedStartDate (predictions m ! k) = predictedStartDate (predictions m ! (k - 1)) + step"
    by blast
  from w int28 have step: "step = round (28 :: real)" unfolding avg by blast
  from st[rule_format, of 1] len have "(20056 :: int) = 20028 + round (28 :: real)"
    unfolding step s0 s1 by simp
  moreover from st[rule_format, of 2] len have "(20084 :: int) = 20056 + round (28 :: real)"
    unfolding step by (simp add: s1 s2)
  moreover have "map_sum id (map predictedStartDate \<circ> predictions \<circ> fst)
     (predictMultipleCycles 20010 db3 ''u1'' 3) = Inr [20028, 20056, 20084]"
    unfolding em using starts by simp
  moreover have "map_sum id (avgCycleLength \<circ> multiCycleStats \<circ> fst)
     (predictMultipleCycles 20010 db3 ''u1'' 3) = Inr 28"
    unfolding em using avg by simp
  ultimately show ?thesis using findAll_db3 iv int28 by blast
qed

text \<open>
  Line 584 of the service passes the mean to \<^verbatim>\<open>addDays\<close> without the \<^verbatim>\<open>Math.round\<close>
  that the other conversions of an average to days apply (lines 498, 500 and 587), so
  with a fractional mean the step is the mean without its fraction: for the intervals
  28, 29, 29 the cycles are 28 days apart although the mean \<open>86 / 3\<close> rounds to 29.
  The amended C2 says nothing about this case beyond the bound of one day.
\<close>

lemma findAll_dbF: "Period_findAll dbF ''u1'' = Inr (historyOf ''u1'' 20000 5 [28, 29, 29])"
  by (simp add: Period_findAll_def databaseOf_def recordOf_def dbF_def)

lemma calculateCycleLengths_dbF:
  "calculateCycleLengths (historyOf ''u1'' 20000 5 [28, 29, 29]) = [28, 29, 29]"
  by (simp add: calculateCycleLengths_Cons2 recordOf_def del: calculateCycleLengths.simps(1))

lemma multi_cycle_step_fractional_mean:
  "map_sum id (map predictedStartDate \<circ> predictions \<circ> fst)
     (predictMultipleCycles 20010 dbF ''u1'' 3) = Inr [20029, 20057, 20085] \<and>
   map_sum id (avgCycleLength \<circ> multiCycleStats \<circ> fst)
     (predictMultipleCycles 20010 dbF ''u1'' 3) = Inr (86 / 3) \<and>
   round (86 / 3 :: real) = 29"
proof -
  let ?h = "historyOf ''u1'' 20000 5 [28, 29, 29]"
  have h: "?h = recordOf ''u1'' 20000 5 # historyOf ''u1'' (20000 - 28) 5 [29, 29]"
    by simp
  have r: "round (86 / 3 :: real) = 29" unfolding round_def by linarith
  have fl: "\<lfloor>86 / 3 :: real\<rfloor> = 28" by linarith
  have w: "calculateWeightedCycleLength ?h = 86 / 3"
    unfolding calculateWeightedCycleLength_def calculateCycleLengths_dbF weighted_tiers
    by (simp add: average_def)
  obtain f where sp: "statisticalPrediction ?h = Inr f"
    unfolding h statisticalPrediction_Cons by blast
  have start: "predictedStartDate f = 20029"
    using sp r unfolding h statisticalPrediction_Cons w[unfolded h]
    by (auto simp: recordOf_def)
  have avg: "avgCycleLength (cycleStats f) = 86 / 3"
    unfolding statisticalPrediction_stats[OF sp] calculateCycleStats_def Let_def
      calculateCycleLengths_dbF
    by (simp add: average_def)
  have next_start: "predictedStartDate (cycleAfter f s i) = s + 28" for s i
    unfolding cycleAfter_start avg using fl by (simp add: addDays_nonneg)
  have l: "3 \<le> length ?h" by simp
  have "map predictedStartDate (cyclesFrom f 3) = [20029, 20057, 20085]"
    unfolding cyclesFrom_def
    by (simp add: start next_start numeral_2_eq_2 Let_def PredictionResult.extend_def
        PredictionResult.truncate_def)
  then show ?thesis
    unfolding predictMultipleCycles_def
    by (simp add: predictNextPeriod_statistical[OF findAll_dbF l sp] avg r
        del: historyOf.simps)
qed

subsection \<open>The cache helpers never reject\<close>

lemma cacheHelpers_get_resolves: "\<exists>r. cacheHelpers_get json redis key = Inr r"
  unfolding cacheHelpers_get_def try_catch_def
  by (auto split: option.splits sum.splits)

lemma cacheHelpers_set_resolves: "\<exists>r. cacheHelpers_set json redis key v ttl = Inr r"
  unfolding cacheHelpers_set_def try_catch_def
  by (auto split: option.splits sum.splits)

lemma cacheHelpers_delete_resolves: "\<exists>r. cacheHelpers_delete redis pattern = Inr r"
  unfolding cacheHelpers_delete_def try_catch_def
  by (auto split: option.splits sum.splits)

lemma cacheHelpers_get_unavailable:
  assumes "redis = None \<or> (\<exists>c. redis = Some c \<and> failing c GET)"
  shows "cacheHelpers_get json redis key = Inr None"
  using assms unfolding cacheHelpers_get_def try_catch_def redis_get_def
  by auto

lemma cacheHelpers_set_unavailable:
  assumes "redis = None \<or> (\<exists>c. redis = Some c \<and> failing c SETEX)"
  shows "cacheHelpers_set json redis key v ttl = Inr redis"
  using assms unfolding cacheHelpers_set_def try_catch_def redis_setex_def
  by (auto split: sum.splits)

lemma cacheHelpers_delete_unavailable:
  assumes "redis = None \<or> (\<exists>c. redis = Some c \<and> (failing c KEYS \<or> failing c DEL))"
  shows "cacheHelpers_delete redis pattern = Inr redis"
  using assms unfolding cacheHelpers_delete_def try_catch_def redis_keys_def redis_del_def
  by (auto split: sum.splits)

lemma get_next_period_unavailable:
  assumes "srv_redis srv = None \<or>
           (\<exists>c. srv_redis srv = Some c \<and> failing c GET \<and> failing c SETEX)"
  shows "get_next_period json today srv u =
     (case predictNextPeriod today (srv_db srv) u of
        Inl e \<Rightarrow> (Next e, srv)
      | Inr (p, db') \<Rightarrow> (Json 200 (PredictionBody (responseData_of p) False), srv\<lparr>srv_db := db'\<rparr>))"
proof -
  have g: "cacheHelpers_get json (srv_redis srv) k = Inr None" for k
    using assms by (intro cacheHelpers_get_unavailable) auto
  have s: "cacheHelpers_set json (srv_redis srv) k v 3600 = Inr (srv_redis srv)" for k v
    using assms by (intro cacheHelpers_set_unavailable) auto
  have r: "\<lparr> srv_db = d, srv_redis = srv_redis srv \<rparr> = srv\<lparr>srv_db := d\<rparr>" for d
    by (cases srv) simp
  show ?thesis
  proof (cases "predictNextPeriod today (srv_db srv) u")
    case (Inl e)
    then show ?thesis unfolding get_next_period_def Let_def g by simp
  next
    case (Inr r)
    then obtain p db' where "predictNextPeriod today (srv_db srv) u = Inr (p, db')"
      by (cases r) simp
    then show ?thesis unfolding get_next_period_def Let_def g by (simp add: s r)
  qed
qed

text \<open>
  C9. No cache helper ever rejects. When Redis is not configured or the Redis command
  of the helper throws, \<open>get\<close> resolves to a miss, and \<open>set\<close> and \<open>delete\<close> resolve
  and leave the store as it was. The forecast request then is served as on a miss:
  its outcome is that of the prediction service alone, with \<open>cached = False\<close>.
\<close>

theorem C9_cache_degrades_to_miss:
  "(\<exists>r. cacheHelpers_get json redis key = Inr r) \<and>
   (\<exists>r. cacheHelpers_set json redis key v ttl = Inr r) \<and>
   (\<exists>r. cacheHelpers_delete redis pattern = Inr r) \<and>
   (redis = None \<or> (\<exists>c. redis = Some c \<and> failing c GET) \<longrightarrow>
      cacheHelpers_get json redis key = Inr None) \<and>
   (redis = None \<or> (\<exists>c. redis = Some c \<and> failing c SETEX) \<longrightarrow>
      cacheHelpers_set json redis key v ttl = Inr redis) \<and>
   (redis = None \<or> (\<exists>c. redis = Some c \<and> (failing c KEYS \<or> failing c DEL)) \<longrightarrow>
      cacheHelpers_delete redis pattern = Inr redis) \<and>
   (srv_redis srv = None \<or>
      (\<exists>c. srv_redis srv = Some c \<and> failing c GET \<and> failing c SETEX) \<longrightarrow>
      get_next_period json' today srv u =
        (case predictNextPeriod today (srv_db srv) u of
           Inl e \<Rightarrow> (Next e, srv)
         | Inr (p, db') \<Rightarrow>
             (Json 200 (PredictionBody (responseData_of p) False), srv\<lparr>srv_db := db'\<rparr>)))"
proof (intro conjI impI)
  show "\<exists>r. cacheHelpers_get json redis key = Inr r"
    by (rule cacheHelpers_get_resolves)
  show "\<exists>r. cacheHelpers_set json redis key v ttl = Inr r"
    by (rule cacheHelpers_set_resolves)
  show "\<exists>r. cacheHelpers_delete redis pattern = Inr r"
    by (rule cacheHelpers_delete_resolves)
  show "cacheHelpers_get json redis key = Inr None"
    if "redis = None \<or> (\<exists>c. redis = Some c \<and> failing c GET)"
    using that by (rule cacheHelpers_get_unavailable)
  show "cacheHelpers_set json redis key v ttl = Inr redis"
    if "redis = None \<or> (\<exists>c. redis = Some c \<and> failing c SETEX)"
    using that by (rule cacheHelpers_set_unavailable)
  show "cacheHelpers_delete redis pattern = Inr redis"
    if "redis = None \<or> (\<exists>c. redis = Some c \<and> (failing c KEYS \<or> failing c DEL))"
    using that by (rule cacheHelpers_delete_unavailable)
  show "get_next_period json' today srv u =
        (case predictNextPeriod today (srv_db srv) u of
           Inl e \<Rightarrow> (Next e, srv)
         | Inr (p, db') \<Rightarrow>
             (Json 200 (PredictionBody (responseData_of p) False), srv\<lparr>srv_db := db'\<rparr>))"
    if "srv_redis srv = None \<or>
      (\<exists>c. srv_redis srv = Some c \<and> failing c GET \<and> failing c SETEX)"
    using that by (rule get_next_period_unavailable)
qed

theorem C9_cache_degrades_to_miss_witness:
  "failing downRedis GET \<and> failing downRedis SETEX \<and> failing downRedis KEYS \<and>
   cacheHelpers_get idJSON (Some downRedis) ''k'' = Inr None \<and>
   cacheHelpers_set idJSON (Some downRedis) ''k'' 8 3600 = Inr (Some downRedis) \<and>
   cacheHelpers_delete (Some downRedis) ''k'' = Inr (Some downRedis) \<and>
   cacheHelpers_get idJSON (None :: nat Redis option) ''k'' = Inr None \<and>
   fst (get_next_period idJSON 20010
          \<lparr> srv_db = db1, srv_redis = None :: ResponseData Redis option \<rparr> ''u1'')
     = Json 200 (PredictionBody (responseData_of forecast1) False)"
proof -
  have f: "failing downRedis GET" "failing downRedis SETEX" "failing downRedis KEYS"
    by (simp_all add: downRedis_def)
  note c = C9_cache_degrades_to_miss[of idJSON "Some downRedis" "''k''" 8 3600 "''k''"
      "\<lparr> srv_db = db1, srv_redis = None :: ResponseData Redis option \<rparr>" idJSON 20010 "''u1''"]
  note n = C9_cache_degrades_to_miss[of idJSON "None :: nat Redis option" "''k''" 8 3600 "''k''"
      "\<lparr> srv_db = db1, srv_redis = None :: ResponseData Redis option \<rparr>" idJSON 20010 "''u1''"]
  from c f have "cacheHelpers_get idJSON (Some downRedis) ''k'' = Inr None"
    and "cacheHelpers_set idJSON (Some downRedis) ''k'' 8 3600 = Inr (Some downRedis)"
    and "cacheHelpers_delete (Some downRedis) ''k'' = Inr (Some downRedis)"
    by blast+
  moreover from n have "cacheHelpers_get idJSON (None :: nat Redis option) ''k'' = Inr None"
    by blast
  moreover from c have "fst (get_next_period idJSON 20010
          \<lparr> srv_db = db1, srv_redis = None :: ResponseData Redis option \<rparr> ''u1'')
     = Json 200 (PredictionBody (responseData_of forecast1) False)"
    by (simp add: predictNextPeriod_db1)
  ultimately show ?thesis using f by blast
qed

subsection \<open>Invalidation on write\<close>

text \<open>
  The pattern that the period-create handler deletes never matches the key under which
  the forecast is cached.
\<close>

lemma invalidation_pattern_misses_key:
  "\<not> glob_match (''prediction:'' @ u) (''predictions:'' @ u')"
  by simp

lemma map_of_filter_keep:
  "(\<And>e. e \<in> set xs \<Longrightarrow> fst e = k \<Longrightarrow> P e) \<Longrightarrow> map_of (filter P xs) k = map_of xs k"
  by (induction xs) auto

lemma cacheHelpers_delete_other_key:
  assumes "cacheHelpers_delete redis pattern = Inr redis'" "\<not> glob_match pattern key"
  shows "cacheHelpers_get json redis' key = cacheHelpers_get json redis key"
proof (cases redis)
  case None
  with assms(1) show ?thesis by (simp add: cacheHelpers_delete_def)
next
  case (Some r)
  let ?keys = "filter (glob_match pattern) (map fst (filter (live r) (entries r)))"
  let ?r' = "r\<lparr>entries := filter (\<lambda>entry. fst entry \<notin> set ?keys) (entries r)\<rparr>"
  have "key \<notin> set ?keys" using assms(2) by simp
  then have m: "map_of (filter (\<lambda>entry. fst entry \<notin> set ?keys) (filter (live r) (entries r))) key
      = map_of (filter (live r) (entries r)) key"
    by (intro map_of_filter_keep) auto
  have l: "live ?r' = live r" by (simp add: live_def fun_eq_iff)
  have "filter (live r) (filter (\<lambda>entry. fst entry \<notin> set ?keys) (entries r))
      = filter (\<lambda>entry. fst entry \<notin> set ?keys) (filter (live r) (entries r))"
    by (simp add: conj_commute)
  with m l have g: "redis_get ?r' key = redis_get r key"
    unfolding redis_get_def by simp
  from assms(1) Some have "redis' = Some r \<or> redis' = Some ?r'"
    unfolding cacheHelpers_delete_def try_catch_def redis_keys_def redis_del_def
    by (auto split: if_splits)
  with Some g show ?thesis unfolding cacheHelpers_get_def by auto
qed

text \<open>
  Whatever the state of the server and whatever the request, the period-create handler
  leaves the cached forecast of every user as it finds it.
\<close>

lemma post_period_keeps_cached_forecast:
  "cacheHelpers_get json (srv_redis (snd (post_period srv u body))) (''predictions:'' @ u')
     = cacheHelpers_get json (srv_redis srv) (''predictions:'' @ u')"
proof (cases body)
  case Malformed
  then show ?thesis by (simp add: post_period_def)
next
  case (WellFormed start finish flow)
  obtain redis' where d: "cacheHelpers_delete (srv_redis srv) (''prediction:'' @ u) = Inr redis'"
    using cacheHelpers_delete_resolves by blast
  have "cacheHelpers_get json redis' (''predictions:'' @ u')
      = cacheHelpers_get json (srv_redis srv) (''predictions:'' @ u')"
    using d invalidation_pattern_misses_key by (rule cacheHelpers_delete_other_key)
  with d WellFormed show ?thesis
    unfolding post_period_def by (auto split: sum.splits)
qed

text \<open>Deleting the key of the cached forecast itself does remove the entry.\<close>

lemma delete_cache_key_srv1:
  "cacheHelpers_delete (srv_redis srv1) ''predictions:u1'' = Inr (Some emptyRedis)"
  unfolding srv1_def
  by (simp add: cacheHelpers_delete_def try_catch_def redis_keys_def redis_del_def
      emptyRedis_def live_def)

lemma get_next_period_srv0:
  "get_next_period idJSON 20010 srv0 ''u1''
     = (Json 200 (PredictionBody (responseData_of forecast0) False), srv1)"
proof -
  have f: "Period_findAll (databaseOf []) ''u1'' = Inr []"
    by (simp add: Period_findAll_def databaseOf_def)
  have "useDefaultPrediction 20010 (databaseOf []) ''u1'' [] = Inr forecast0"
    by (simp add: useDefaultPrediction_def UserSettings_findOne_def databaseOf_def
        ovulationDay_of_def forecast0_def)
  then have p: "predictNextPeriod 20010 (databaseOf []) ''u1'' = Inr (forecast0, databaseOf [])"
    by (simp add: predictNextPeriod_default[OF f])
  show ?thesis
    unfolding get_next_period_def srv0_def srv1_def Let_def
    by (simp add: p cacheHelpers_get_def cacheHelpers_set_def try_catch_def redis_get_def
        redis_setex_def emptyRedis_def idJSON_def)
qed

lemma post_period_srv1:
  "post_period srv1 ''u1'' newPeriod = (Json 201 (PeriodBody (recordOf ''u1'' 20000 5)), srv2)"
  unfolding post_period_def srv2_def srv1_def newPeriod_def
  by (simp add: Period_create_def databaseOf_def db1_def recordOf_def cacheHelpers_delete_def
      try_catch_def redis_keys_def emptyRedis_def live_def)

lemma get_next_period_srv2:
  "get_next_period idJSON 20010 srv2 ''u1''
     = (Json 200 (PredictionBody (responseData_of forecast0) True), srv2)"
  unfolding get_next_period_def srv2_def srv1_def Let_def
  by (simp add: cacheHelpers_get_def try_catch_def redis_get_def emptyRedis_def idJSON_def
      live_def)

text \<open>
  C1. Creating a period through the periods route is to remove the cached forecast of
  the user, so that the next read of the forecast recomputes it even within the TTL.
  The code does not achieve this, since it deletes \<^verbatim>\<open>prediction:<user>\<close> while the
  forecast is cached under \<^verbatim>\<open>predictions:<user>\<close>. In the session below the first read
  caches the forecast of user \<open>u1\<close>; creating a period succeeds and changes the
  history, but leaves the cache as it was; the next read answers \<open>cached = True\<close> with
  the forecast computed before the write, while the prediction service would now
  return a different one.
\<close>

theorem C1_stale_forecast_after_create:
  "get_next_period idJSON 20010 srv0 ''u1''
     = (Json 200 (PredictionBody (responseData_of forecast0) False), srv1) \<and>
   post_period srv1 ''u1'' newPeriod
     = (Json 201 (PeriodBody (recordOf ''u1'' 20000 5)), srv2) \<and>
   srv_db srv2 \<noteq> srv_db srv1 \<and>
   srv_redis srv2 = srv_redis srv1 \<and>
   get_next_period idJSON 20010 srv2 ''u1''
     = (Json 200 (PredictionBody (responseData_of forecast0) True), srv2) \<and>
   predictNextPeriod 20010 (srv_db srv2) ''u1'' = Inr (forecast1, srv_db srv2) \<and>
   responseData_of forecast1 \<noteq> responseData_of forecast0"
proof -
  have "srv_db srv2 \<noteq> srv_db srv1"
    by (simp add: srv2_def srv1_def db1_def databaseOf_def)
  moreover have "srv_redis srv2 = srv_redis srv1" by (simp add: srv2_def)
  moreover have "predictNextPeriod 20010 (srv_db srv2) ''u1'' = Inr (forecast1, srv_db srv2)"
    by (simp add: srv2_def predictNextPeriod_db1)
  moreover have "responseData_of forecast1 \<noteq> responseData_of forecast0"
    by (simp add: responseData_of_def forecast1_def forecast0_def)
  ultimately show ?thesis
    using get_next_period_srv0 post_period_srv1 get_next_period_srv2 by blast
qed

end
